theory Spec2Isabelle
  imports Complex_Main "HOL-Library.AList" "HOL-Library.Sublist"
begin

section \<open>Python values, dictionaries and exceptions\<close>

text \<open>
  The agent works on \<^verbatim>\<open>Dict[str, Any]\<close> values throughout: the configuration, the
  feature dictionary and the report. A dictionary is an association list in insertion
  order with one entry per key: \<^verbatim>\<open>d[k] = v\<close> is \<open>AList.update k v d\<close> (overwrite in
  place, or append), \<^verbatim>\<open>d[k]\<close> and \<^verbatim>\<open>d.get(k, default)\<close> read through \<open>map_of\<close>, and
  \<^verbatim>\<open>d.items()\<close> is the list itself. A one-dimensional numpy array of samples is a
  \<open>real list\<close>, and a finite float is the real number it denotes, so comparisons of
  floats are exact. No arithmetic on floats is done here but the means of numpy, whose
  rounding is not modelled; \<open>VNaN\<close> is the float \<^verbatim>\<open>nan\<close>.
\<close>

datatype pyval =
    VNone
  | VBool bool
  | VInt int
  | VFloat real
  | VNaN
  | VStr string
  | VList "pyval list"
  | VDict "(string \<times> pyval) list"

type_synonym 'v dict = "(string \<times> 'v) list"

fun truthy :: "pyval \<Rightarrow> bool" where
  "truthy VNone = False"
| "truthy (VBool b) = b"
| "truthy (VInt i) = (i \<noteq> 0)"
| "truthy (VFloat r) = (r \<noteq> 0)"
| "truthy VNaN = True"
| "truthy (VStr s) = (s \<noteq> [])"
| "truthy (VList xs) = (xs \<noteq> [])"
| "truthy (VDict d) = (d \<noteq> [])"

definition dict_get :: "pyval dict \<Rightarrow> string \<Rightarrow> pyval \<Rightarrow> pyval" where
  "dict_get d k dflt = (case map_of d k of Some v \<Rightarrow> v | None \<Rightarrow> dflt)"

definition keys :: "'v dict \<Rightarrow> string list" where
  "keys d = map fst d"

text \<open>
  Every \<^verbatim>\<open>except Exception\<close> of the source catches all of these. \<open>str\<close> is Python's
  \<^verbatim>\<open>str(e)\<close>: the message the exception was raised with, which for a \<^verbatim>\<open>KeyError\<close> is the
  quoted key.
\<close>

datatype error =
    KeyError string
  | AttributeError string string
  | IndexError string
  | ValueError string
  | RuntimeError string
  | Exception string

definition quote :: "string \<Rightarrow> string" where
  "quote s = CHR 0x27 # s @ [CHR 0x27]"

fun str :: "error \<Rightarrow> string" where
  "str (KeyError k) = quote k"
| "str (AttributeError ty a) = quote ty @ '' object has no attribute '' @ quote a"
| "str (IndexError m) = m"
| "str (ValueError m) = m"
| "str (RuntimeError m) = m"
| "str (Exception m) = m"

section \<open>The collaborators outside the repository\<close>

text \<open>
  A loaded model is a Python callable. The dispatch loop calls it on a tensor of shape
  (batch, channel, samples) and reads a (batch, outputs) tensor back, or, for the
  external pipeline, calls it on the file path.
\<close>

record model =
  call_tensor :: "real list list list \<Rightarrow> error + real list list"
  call_path :: "string \<Rightarrow> error + pyval"

text \<open>
  torch, librosa, pydub, whisper and transformers are not part of the repository. Each
  entry point the agent calls is a field of the environment and may raise.
  \<open>torch_softmax\<close> is \<^verbatim>\<open>torch.nn.functional.softmax\<close> along one row: the float32 values
  torch computes, which no definition of this theory replaces.
  \<open>load_cough_classifier\<close> and \<open>load_breathing_analyzer\<close> stand for the two loader
  methods (lines 67-134), which only build torch modules and read weight files.
\<close>

record env =
  whisper_load_model :: "pyval \<Rightarrow> error + unit"
  whisper_transcribe :: "real list \<Rightarrow> error + pyval dict"
  load_cough_classifier :: "pyval \<Rightarrow> error + model"
  load_breathing_analyzer :: "pyval \<Rightarrow> error + model"
  pipeline :: "string \<Rightarrow> string \<Rightarrow> error + model"
  from_file_export :: "string \<Rightarrow> string \<Rightarrow> error + unit"
  librosa_load :: "string \<Rightarrow> pyval \<Rightarrow> error + real list"
  normalize :: "real list \<Rightarrow> error + real list"
  effects_split :: "real list \<Rightarrow> pyval \<Rightarrow> error + (nat \<times> nat) list"
  feature_mfcc :: "real list \<Rightarrow> pyval \<Rightarrow> pyval \<Rightarrow> error + real list list"
  feature_spectral_centroid :: "real list \<Rightarrow> pyval \<Rightarrow> error + real list list"
  feature_chroma_stft :: "real list \<Rightarrow> pyval \<Rightarrow> error + real list list"
  onset_strength :: "real list \<Rightarrow> pyval \<Rightarrow> error + real list"
  beat_tempo :: "real list \<Rightarrow> pyval \<Rightarrow> error + real list"
  torch_softmax :: "real list \<Rightarrow> real list"

section \<open>The agent\<close>

record agent =
  config :: "pyval dict"
  sample_rate :: pyval
  models :: "model dict"

subsection \<open>Loading the registry (lines 41-64)\<close>

text \<open>
  The body of the \<^verbatim>\<open>try\<close> for one configured name. The first two branches assign; the
  branches for \<^verbatim>\<open>voice_analyzer\<close> and \<^verbatim>\<open>emotion_detector\<close> are written with \<^verbatim>\<open>==\<close> in
  the source, a comparison whose left operand \<^verbatim>\<open>self.models[model_name]\<close> is evaluated
  first and raises \<^verbatim>\<open>KeyError\<close> when the name is not yet in the registry. Were it
  there, the voice branch would next look up the method \<^verbatim>\<open>_load_voice_ananlyzer\<close>, which
  the class does not define, and the emotion branch would build the pipeline and discard
  the comparison's result. A name outside the four falls through all branches.
\<close>

definition load_one :: "env \<Rightarrow> model dict \<Rightarrow> string \<times> pyval \<Rightarrow> error + model dict" where
  "load_one E ms kv =
     (let model_name = fst kv; model_config = snd kv in
      if model_name = ''cough_classifier'' then
        (case load_cough_classifier E model_config of
           Inl e \<Rightarrow> Inl e
         | Inr m \<Rightarrow> Inr (AList.update model_name m ms))
      else if model_name = ''breathing_analyzer'' then
        (case load_breathing_analyzer E model_config of
           Inl e \<Rightarrow> Inl e
         | Inr m \<Rightarrow> Inr (AList.update model_name m ms))
      else if model_name = ''voice_analyzer'' then
        (case map_of ms model_name of
           None \<Rightarrow> Inl (KeyError model_name)
         | Some _ \<Rightarrow> Inl (AttributeError ''AudioAgent'' ''_load_voice_ananlyzer''))
      else if model_name = ''emotion_detector'' then
        (case map_of ms model_name of
           None \<Rightarrow> Inl (KeyError model_name)
         | Some _ \<Rightarrow>
            (case pipeline E ''audio-classification''
                    ''ehcalabres/wav2vec2-lg-xlsr-en-speech-emotion-recognition'' of
               Inl e \<Rightarrow> Inl e
             | Inr _ \<Rightarrow> Inr ms))
      else Inr ms)"

text \<open>
  The \<^verbatim>\<open>for\<close> loop over \<^verbatim>\<open>model_configs.items()\<close>: an exception of one iteration is
  caught (and logged), and the loop goes on with the registry as it was.
\<close>

fun load_models_loop :: "env \<Rightarrow> model dict \<Rightarrow> pyval dict \<Rightarrow> model dict" where
  "load_models_loop E ms [] = ms"
| "load_models_loop E ms (kv # rest) =
     (case load_one E ms kv of
        Inl e \<Rightarrow> load_models_loop E ms rest
      | Inr ms' \<Rightarrow> load_models_loop E ms' rest)"

text \<open>
  \<^verbatim>\<open>self.config.get("models", {})\<close> is read outside the \<^verbatim>\<open>try\<close>: a value that is not
  a dictionary has no \<^verbatim>\<open>items\<close>.
\<close>

definition load_models :: "env \<Rightarrow> agent \<Rightarrow> error + agent" where
  "load_models E self =
     (case dict_get (config self) ''models'' (VDict []) of
        VDict model_configs \<Rightarrow>
          Inr (self\<lparr>models := load_models_loop E (models self) model_configs\<rparr>)
      | VNone \<Rightarrow> Inl (AttributeError ''NoneType'' ''items'')
      | VBool _ \<Rightarrow> Inl (AttributeError ''bool'' ''items'')
      | VInt _ \<Rightarrow> Inl (AttributeError ''int'' ''items'')
      | VFloat _ \<Rightarrow> Inl (AttributeError ''float'' ''items'')
      | VNaN \<Rightarrow> Inl (AttributeError ''float'' ''items'')
      | VStr _ \<Rightarrow> Inl (AttributeError ''str'' ''items'')
      | VList _ \<Rightarrow> Inl (AttributeError ''list'' ''items''))"

text \<open>The constructor (lines 21-38); the device is not modelled.\<close>

definition init :: "env \<Rightarrow> pyval dict \<Rightarrow> error + agent" where
  "init E cfg =
     (case whisper_load_model E (dict_get cfg ''whisper_model_size'' (VStr ''base'')) of
        Inl e \<Rightarrow> Inl e
      | Inr _ \<Rightarrow>
          load_models E
            \<lparr>config = cfg, sample_rate = dict_get cfg ''sample_rate'' (VInt 16000), models = []\<rparr>)"

subsection \<open>The classifier modules (lines 72-91 and 106-124)\<close>

text \<open>
  The two classifiers are the same stack but for the size of the last layer:
  \<^verbatim>\<open>Conv1d(1, 64, kernel_size=10, stride=5)\<close>, \<^verbatim>\<open>MaxPool1d(2)\<close>,
  \<^verbatim>\<open>Conv1d(64, 128, kernel_size=10, stride=5)\<close>, \<^verbatim>\<open>MaxPool1d(2)\<close>, \<^verbatim>\<open>Flatten\<close>, and the
  linear layers \<^verbatim>\<open>Linear(128 * 99, 128)\<close>, \<^verbatim>\<open>Linear(128, 64)\<close>, \<^verbatim>\<open>Linear(64, n_classes)\<close>.
  Only the lengths are followed here, for a batch of one: each layer maps the length of
  its input to the length of its output, and raises when the input does not fit.
  The messages are those of torch on the CPU with gradients off, as in the dispatch
  loop; \<open>show_nat\<close> writes a number in decimal for them.
\<close>

fun show_nat :: "nat \<Rightarrow> string" where
  "show_nat n =
     (if n < 10 then [''0123456789'' ! n]
      else show_nat (n div 10) @ [''0123456789'' ! (n mod 10)])"

definition conv1d_len :: "nat \<Rightarrow> nat \<Rightarrow> nat \<Rightarrow> error + nat" where
  "conv1d_len kernel_size stride n =
     (if n < kernel_size then
        Inl (RuntimeError
          (''Calculated padded input size per channel: ('' @ show_nat n @ ''). Kernel size: ('' @
           show_nat kernel_size @ ''). Kernel size can'' @ [CHR 0x27] @
           ''t be greater than actual input size''))
      else Inr ((n - kernel_size) div stride + 1))"

definition maxpool1d_len :: "nat \<Rightarrow> nat \<Rightarrow> error + nat" where
  "maxpool1d_len kernel_size n =
     (if n div kernel_size = 0 then
        Inl (RuntimeError ''max_pool1d() Invalid computed output size: 0'')
      else Inr (n div kernel_size))"

definition linear_len :: "nat \<Rightarrow> nat \<Rightarrow> nat \<Rightarrow> error + nat" where
  "linear_len in_features out_features n =
     (if n = in_features then Inr out_features
      else Inl (RuntimeError
        (''mat1 and mat2 shapes cannot be multiplied (1x'' @ show_nat n @ '' and '' @
         show_nat in_features @ ''x'' @ show_nat out_features @ '')'')))"

definition classifier_forward_len :: "nat \<Rightarrow> nat \<Rightarrow> error + nat" where
  "classifier_forward_len n_classes n =
     (case conv1d_len 10 5 n of
        Inl e \<Rightarrow> Inl e
      | Inr l1 \<Rightarrow>
     (case maxpool1d_len 2 l1 of
        Inl e \<Rightarrow> Inl e
      | Inr l2 \<Rightarrow>
     (case conv1d_len 10 5 l2 of
        Inl e \<Rightarrow> Inl e
      | Inr l3 \<Rightarrow>
     (case maxpool1d_len 2 l3 of
        Inl e \<Rightarrow> Inl e
      | Inr l4 \<Rightarrow>
     (case linear_len (128 * 99) 128 (128 * l4) of
        Inl e \<Rightarrow> Inl e
      | Inr h1 \<Rightarrow>
     (case linear_len 128 64 h1 of
        Inl e \<Rightarrow> Inl e
      | Inr h2 \<Rightarrow> linear_len 64 n_classes h2))))))"

subsection \<open>Preprocessing (lines 170-203)\<close>

text \<open>\<^verbatim>\<open>path.endswith(suffix)\<close> and \<^verbatim>\<open>path.rsplit('.', 1)[0]\<close>.\<close>

definition endswith :: "string \<Rightarrow> string \<Rightarrow> bool" where
  "endswith s suf = suffix suf s"

definition rsplit_dot_head :: "string \<Rightarrow> string" where
  "rsplit_dot_head s =
     (if CHR ''.'' \<in> set s then rev (tl (dropWhile (\<lambda>c. c \<noteq> CHR ''.'') (rev s))) else s)"

text \<open>\<^verbatim>\<open>audio[start:end]\<close> for the non-negative bounds librosa returns.\<close>

definition slice :: "real list \<Rightarrow> nat \<Rightarrow> nat \<Rightarrow> real list" where
  "slice audio start end = take (end - start) (drop start audio)"

text \<open>\<^verbatim>\<open>np.concatenate\<close> raises on an empty sequence of arrays.\<close>

definition np_concatenate :: "real list list \<Rightarrow> error + real list" where
  "np_concatenate arrays =
     (if arrays = [] then Inl (ValueError ''need at least one array to concatenate'')
      else Inr (concat arrays))"

text \<open>
  The \<^verbatim>\<open>except\<close> clause of \<open>preprocess_audio\<close> logs and re-raises, so every failure of
  a step is the failure of the function.
\<close>

definition preprocess_audio :: "env \<Rightarrow> agent \<Rightarrow> string \<Rightarrow> error + real list" where
  "preprocess_audio E self audio_path =
     (case (if \<not> endswith audio_path ''.wav'' then
              (let temp_path = rsplit_dot_head audio_path @ ''.wav'' in
               case from_file_export E audio_path temp_path of
                 Inl e \<Rightarrow> Inl e
               | Inr _ \<Rightarrow> Inr temp_path)
            else Inr audio_path) of
        Inl e \<Rightarrow> Inl e
      | Inr wav_path \<Rightarrow>
       (case librosa_load E wav_path (sample_rate self) of
          Inl e \<Rightarrow> Inl e
        | Inr loaded \<Rightarrow>
         (case (if truthy (dict_get (config self) ''normalize'' (VBool True))
                then normalize E loaded else Inr loaded) of
            Inl e \<Rightarrow> Inl e
          | Inr audio \<Rightarrow>
             if truthy (dict_get (config self) ''remove_silence'' (VBool False)) then
               (case effects_split E audio (dict_get (config self) ''silence_thresold'' (VInt 30)) of
                  Inl e \<Rightarrow> Inl e
                | Inr non_silent_intervals \<Rightarrow>
                    np_concatenate (map (\<lambda>(start, end). slice audio start end) non_silent_intervals))
             else Inr audio)))"

subsection \<open>Feature extraction (lines 206-243)\<close>

text \<open>
  \<^verbatim>\<open>ndarray.mean()\<close> over all entries and \<^verbatim>\<open>ndarray.mean(axis=1)\<close> over each row. The
  mean of no entries is \<^verbatim>\<open>nan\<close> (numpy warns and does not raise).
\<close>

definition mean :: "real list \<Rightarrow> pyval" where
  "mean xs = (if xs = [] then VNaN else VFloat (sum_list xs / real (length xs)))"

definition mean_all :: "real list list \<Rightarrow> pyval" where
  "mean_all rows = mean (concat rows)"

definition mean_axis1 :: "real list list \<Rightarrow> pyval" where
  "mean_axis1 rows = VList (map mean rows)"

text \<open>
  Four guarded blocks in sequence, none of them inside a \<^verbatim>\<open>try\<close>: the first library
  call that raises ends the function with that exception.
\<close>

definition extract_features :: "env \<Rightarrow> agent \<Rightarrow> real list \<Rightarrow> error + pyval dict" where
  "extract_features E self audio =
     (case (if truthy (dict_get (config self) ''extract_mfcc'' (VBool True)) then
              (case feature_mfcc E audio (sample_rate self)
                      (dict_get (config self) ''n_mfcc'' (VInt 13)) of
                 Inl e \<Rightarrow> Inl e
               | Inr mfccs \<Rightarrow> Inr (AList.update ''mfcc'' (mean_axis1 mfccs) []))
            else Inr []) of
        Inl e \<Rightarrow> Inl e
      | Inr features1 \<Rightarrow>
       (case (if truthy (dict_get (config self) ''external_spectral_centroid'' (VBool True)) then
                (case feature_spectral_centroid E audio (sample_rate self) of
                   Inl e \<Rightarrow> Inl e
                 | Inr spectral_centroid \<Rightarrow>
                     Inr (AList.update ''spectral_centroid'' (mean_all spectral_centroid) features1))
              else Inr features1) of
          Inl e \<Rightarrow> Inl e
        | Inr features2 \<Rightarrow>
         (case (if truthy (dict_get (config self) ''extract_chroma'' (VBool True)) then
                  (case feature_chroma_stft E audio (sample_rate self) of
                     Inl e \<Rightarrow> Inl e
                   | Inr bandwidth \<Rightarrow>
                       Inr (AList.update ''bandwidth'' (mean_all bandwidth) features2))
                else Inr features2) of
            Inl e \<Rightarrow> Inl e
          | Inr features3 \<Rightarrow>
             if truthy (dict_get (config self) ''extract_tempo'' (VBool True)) then
               (case onset_strength E audio (sample_rate self) of
                  Inl e \<Rightarrow> Inl e
                | Inr onset_env \<Rightarrow>
                   (case beat_tempo E onset_env (sample_rate self) of
                      Inl e \<Rightarrow> Inl e
                    | Inr [] \<Rightarrow> Inl (IndexError ''index 0 is out of bounds for axis 0 with size 0'')
                    | Inr (tempo0 # _) \<Rightarrow> Inr (AList.update ''tempo'' (VFloat tempo0) features3)))
             else Inr features3)))"

subsection \<open>Transcription (lines 245-265)\<close>

text \<open>Everything is inside the \<^verbatim>\<open>try\<close>; its handler returns the empty string.\<close>

definition transcribe_audio :: "env \<Rightarrow> agent \<Rightarrow> real list \<Rightarrow> pyval" where
  "transcribe_audio E self audio =
     (case whisper_transcribe E audio of
        Inl e \<Rightarrow> VStr []
      | Inr result \<Rightarrow>
         (case map_of result ''text'' of
            None \<Rightarrow> VStr []
          | Some text \<Rightarrow> text))"

subsection \<open>The torch operations of the dispatch loop\<close>

text \<open>
  \<^verbatim>\<open>torch.tensor(audio).float().unsqueeze(0).unsqueeze(0)\<close> has shape (1, 1, N).
  \<^verbatim>\<open>len\<close> of a tensor is the size of its first dimension, and
  \<^verbatim>\<open>model_input[:, :, :10000]\<close> keeps the first 10000 entries of the last one.
\<close>

definition model_input_of :: "real list \<Rightarrow> real list list list" where
  "model_input_of audio =
     (let model_input = [[audio]] in
      if length model_input > 10000 then map (map (take 10000)) model_input
      else model_input)"

text \<open>
  \<^verbatim>\<open>torch.argmax\<close> scans for the largest entry and returns the index of its first
  occurrence; on an empty tensor it raises. It only compares floats, so nothing is
  rounded.
\<close>

fun argmax_from :: "real \<Rightarrow> nat \<Rightarrow> nat \<Rightarrow> real list \<Rightarrow> nat" where
  "argmax_from best best_idx i [] = best_idx"
| "argmax_from best best_idx i (x # xs) =
     (if best < x then argmax_from x i (Suc i) xs else argmax_from best best_idx (Suc i) xs)"

definition argmax :: "real list \<Rightarrow> error + nat" where
  "argmax xs =
     (case xs of
        [] \<Rightarrow> Inl (IndexError
               (''argmax(): Expected reduction dim to be specified for input.numel() == 0. '' @
                ''Specify the reduction dim with the '' @ quote ''dim'' @ '' argument.''))
      | x # rest \<Rightarrow> Inr (argmax_from x 0 1 rest))"

text \<open>A dict comprehension stores its pairs one after the other.\<close>

definition dict_comprehension :: "(string \<times> pyval) list \<Rightarrow> pyval dict" where
  "dict_comprehension pairs = foldl (\<lambda>d kv. AList.update (fst kv) (snd kv) d) [] pairs"

text \<open>
  Lines 308-315 and 317-324 are the same text but for the list of classes: softmax
  along dimension 1, row 0, its argmax, and the record of three entries.
\<close>

definition classifier_record :: "env \<Rightarrow> string list \<Rightarrow> real list list \<Rightarrow> error + pyval" where
  "classifier_record E classes output =
     (case map (torch_softmax E) output of
        [] \<Rightarrow> Inl (IndexError ''index 0 is out of bounds for dimension 0 with size 0'')
      | probs # _ \<Rightarrow>
         (case argmax probs of
            Inl e \<Rightarrow> Inl e
          | Inr class_idx \<Rightarrow>
             if class_idx < length classes then
               Inr (VDict
                 [(''prediction'', VStr (classes ! class_idx)),
                  (''confidence'', VFloat (probs ! class_idx)),
                  (''probabilities'', VDict (dict_comprehension (zip classes (map VFloat probs))))])
             else Inl (IndexError ''list index out of range'')))"

text \<open>
  Lines 326-331: row 0 of the output as a numpy array, read at positions 0, 1 and 2 in
  this order.
\<close>

definition voice_record :: "real list list \<Rightarrow> error + pyval" where
  "voice_record output =
     (case output of
        [] \<Rightarrow> Inl (IndexError ''index 0 is out of bounds for dimension 0 with size 0'')
      | row # _ \<Rightarrow>
         (case row of
            [] \<Rightarrow> Inl (IndexError ''index 0 is out of bounds for axis 0 with size 0'')
          | [tremor] \<Rightarrow> Inl (IndexError ''index 1 is out of bounds for axis 0 with size 1'')
          | [tremor, hoarseness] \<Rightarrow>
              Inl (IndexError ''index 2 is out of bounds for axis 0 with size 2'')
          | tremor # hoarseness # clarity # _ \<Rightarrow>
              Inr (VDict
                [(''tremor'', VFloat tremor),
                 (''hoarseness'', VFloat hoarseness),
                 (''clarity'', VFloat clarity)])))"

subsection \<open>The analysis (lines 267-338)\<close>

text \<open>
  One iteration of the loop over \<^verbatim>\<open>self.models.items()\<close>. The report is written last
  in every branch, so an iteration that raises leaves it as it was.
\<close>

definition dispatch_one ::
  "env \<Rightarrow> real list \<Rightarrow> string \<Rightarrow> pyval dict \<Rightarrow> string \<times> model \<Rightarrow> error + pyval dict" where
  "dispatch_one E audio audio_path results kv =
     (let model_name = fst kv; model = snd kv in
      if model_name = ''emotion_detector'' then
        (case call_path model audio_path of
           Inl e \<Rightarrow> Inl e
         | Inr emotion_result \<Rightarrow> Inr (AList.update model_name emotion_result results))
      else
        (case call_tensor model (model_input_of audio) of
           Inl e \<Rightarrow> Inl e
         | Inr output \<Rightarrow>
            if model_name = ''cough_classifier'' then
              (case classifier_record E [''normal'', ''covid'', ''pneumonia'', ''bronchitis''] output of
                 Inl e \<Rightarrow> Inl e
               | Inr r \<Rightarrow> Inr (AList.update model_name r results))
            else if model_name = ''breathing_analyzer'' then
              (case classifier_record E
                      [''normal'', ''wheezy'', ''crackle'', ''stridor'', ''rhonchi''] output of
                 Inl e \<Rightarrow> Inl e
               | Inr r \<Rightarrow> Inr (AList.update model_name r results))
            else if model_name = ''voice_analyzer'' then
              (case voice_record output of
                 Inl e \<Rightarrow> Inl e
               | Inr r \<Rightarrow> Inr (AList.update model_name r results))
            else Inr results))"

text \<open>
  The loop. It has no handler of its own: the first iteration that raises ends it, and
  the exception leaves with the report built so far.
\<close>

fun dispatch ::
  "env \<Rightarrow> real list \<Rightarrow> string \<Rightarrow> pyval dict \<Rightarrow> model dict \<Rightarrow>
     (error \<times> pyval dict) + pyval dict" where
  "dispatch E audio audio_path results [] = Inr results"
| "dispatch E audio audio_path results (kv # rest) =
     (case dispatch_one E audio audio_path results kv of
        Inl e \<Rightarrow> Inl (e, results)
      | Inr results' \<Rightarrow> dispatch E audio audio_path results' rest)"

text \<open>
  Lines 285-290: the report when the loop starts. It holds the features, and the
  transcript unless transcription is switched off.
\<close>

definition report_before_dispatch :: "env \<Rightarrow> agent \<Rightarrow> real list \<Rightarrow> pyval dict \<Rightarrow> pyval dict" where
  "report_before_dispatch E self audio features =
     (let results = AList.update ''features'' (VDict features) [] in
      if truthy (dict_get (config self) ''transcribe'' (VBool True))
      then AList.update ''transcript'' (transcribe_audio E self audio) results
      else results)"

text \<open>
  The body of the \<^verbatim>\<open>try\<close>: either the finished report, or the exception together with
  the report as it stood when the exception was raised.
\<close>

definition analyze_body ::
  "env \<Rightarrow> agent \<Rightarrow> string \<Rightarrow> (error \<times> pyval dict) + pyval dict" where
  "analyze_body E self audio_path =
     (case preprocess_audio E self audio_path of
        Inl e \<Rightarrow> Inl (e, [])
      | Inr audio \<Rightarrow>
         (case extract_features E self audio of
            Inl e \<Rightarrow> Inl (e, [])
          | Inr features \<Rightarrow>
              dispatch E audio audio_path (report_before_dispatch E self audio features)
                (models self)))"

text \<open>
  \<open>analyze\<close> with its handler. The result is a sum so that raising to the caller would
  be a value \<open>Inl\<close> of the model.
\<close>

definition analyze :: "env \<Rightarrow> agent \<Rightarrow> string \<Rightarrow> error + pyval dict" where
  "analyze E self audio_path =
     (case analyze_body E self audio_path of
        Inr results \<Rightarrow> Inr results
      | Inl (e, results) \<Rightarrow> Inr (AList.update ''error'' (VStr (str e)) results))"

section \<open>The prediction records as the specification words them\<close>

text \<open>
  Section 4.5 of the specification says what the record of a model is, from the answer
  of the model: for \<^verbatim>\<open>emotion_detector\<close> the output passed through unchanged; for a
  classifier the label at the argmax, the maximal probability and the full distribution
  over the labels, the argmax being the first index that reaches the maximum; for
  \<^verbatim>\<open>voice_analyzer\<close> the three outputs by position. These definitions follow that wording
  and not the code; they give no record where the answer of the model allows none.
\<close>

definition first_max_index :: "real list \<Rightarrow> nat" where
  "first_max_index probs = length (takeWhile (\<lambda>x. x \<noteq> Max (set probs)) probs)"

definition spec_classifier_record :: "string list \<Rightarrow> real list \<Rightarrow> pyval option" where
  "spec_classifier_record labels probs =
     (if probs \<noteq> [] \<and> first_max_index probs < length labels then
        Some (VDict
          [(''prediction'', VStr (labels ! first_max_index probs)),
           (''confidence'', VFloat (Max (set probs))),
           (''probabilities'', VDict (zip labels (map VFloat probs)))])
      else None)"

definition spec_record :: "env \<Rightarrow> real list \<Rightarrow> string \<Rightarrow> string \<times> model \<Rightarrow> pyval option" where
  "spec_record E audio audio_path km =
     (if fst km = ''emotion_detector'' then
        (case call_path (snd km) audio_path of Inl e \<Rightarrow> None | Inr v \<Rightarrow> Some v)
      else
        (case call_tensor (snd km) (model_input_of audio) of
           Inl e \<Rightarrow> None
         | Inr [] \<Rightarrow> None
         | Inr (row # _) \<Rightarrow>
            if fst km = ''cough_classifier'' then
              spec_classifier_record [''normal'', ''covid'', ''pneumonia'', ''bronchitis'']
                (torch_softmax E row)
            else if fst km = ''breathing_analyzer'' then
              spec_classifier_record [''normal'', ''wheezy'', ''crackle'', ''stridor'', ''rhonchi'']
                (torch_softmax E row)
            else if fst km = ''voice_analyzer'' then
              (case row of
                 tremor # hoarseness # clarity # _ \<Rightarrow>
                   Some (VDict
                     [(''tremor'', VFloat tremor),
                      (''hoarseness'', VFloat hoarseness),
                      (''clarity'', VFloat clarity)])
               | _ \<Rightarrow> None)
            else None))"

section \<open>Concrete collaborators\<close>

text \<open>
  Small environments on which the definitions can be run. \<open>env_ok\<close> decodes every
  file to four samples with silence in the middle; its silence detector cuts the two
  middle samples out at a threshold of 30 and nothing at any other threshold. Its models
  answer with equal logits, and its softmax with the uniform row, which is what softmax
  is on equal logits.
\<close>

definition const_model :: "real list list \<Rightarrow> model" where
  "const_model out = \<lparr>call_tensor = (\<lambda>_. Inr out), call_path = (\<lambda>_. Inr (VList []))\<rparr>"

definition failing_model :: "string \<Rightarrow> model" where
  "failing_model msg =
     \<lparr>call_tensor = (\<lambda>_. Inl (Exception msg)), call_path = (\<lambda>_. Inl (Exception msg))\<rparr>"

text \<open>
  A classifier module with the layer sizes of the source and all weights zero: on a
  (1, 1, N) tensor it runs through the layers and, where they fit, answers with zero
  logits.
\<close>

definition zero_weight_classifier :: "nat \<Rightarrow> model" where
  "zero_weight_classifier n_classes =
     \<lparr>call_tensor =
        (\<lambda>t. case t of
              [[samples]] \<Rightarrow>
                (case classifier_forward_len n_classes (length samples) of
                   Inl e \<Rightarrow> Inl e
                 | Inr k \<Rightarrow> Inr [replicate k 0])
            | _ \<Rightarrow> Inl (RuntimeError ''expected one batch of one channel'')),
      call_path = (\<lambda>_. Inl (Exception ''conv1d() received an invalid combination of arguments''))\<rparr>"

definition env_ok :: env where
  "env_ok =
     \<lparr>whisper_load_model = (\<lambda>_. Inr ()),
      whisper_transcribe = (\<lambda>_. Inr [(''text'', VStr ''hello'')]),
      load_cough_classifier = (\<lambda>_. Inr (const_model [[0, 0, 0, 0]])),
      load_breathing_analyzer = (\<lambda>_. Inr (const_model [[0, 0, 0, 0, 0]])),
      pipeline = (\<lambda>_ _. Inr (const_model [])),
      from_file_export = (\<lambda>_ _. Inr ()),
      librosa_load = (\<lambda>_ _. Inr [1 / 2, 0, 0, 1]),
      normalize = (\<lambda>audio. Inr audio),
      effects_split =
        (\<lambda>_ top_db. Inr (if top_db = VInt 30 then [(0, 1), (3, 4)] else [(0, 4)])),
      feature_mfcc = (\<lambda>_ _ _. Inr [[1, 3], [2, 4]]),
      feature_spectral_centroid = (\<lambda>_ _. Inr [[2, 4]]),
      feature_chroma_stft = (\<lambda>_ _. Inr [[1, 1]]),
      onset_strength = (\<lambda>_ _. Inr [0, 1]),
      beat_tempo = (\<lambda>_ _. Inr [120]),
      torch_softmax = (\<lambda>logits. replicate (length logits) (1 / real (length logits)))\<rparr>"

text \<open>The agent as the constructor leaves it before the registry is loaded.\<close>

definition agent_of :: "pyval dict \<Rightarrow> agent" where
  "agent_of cfg =
     \<lparr>config = cfg, sample_rate = dict_get cfg ''sample_rate'' (VInt 16000), models = []\<rparr>"

text \<open>Variants of \<open>env_ok\<close> in which one collaborator raises.\<close>

definition env_cough_fails :: env where
  "env_cough_fails = env_ok\<lparr>load_cough_classifier := (\<lambda>_. Inl (Exception ''cannot build''))\<rparr>"

definition env_decode_fails :: "string \<Rightarrow> env" where
  "env_decode_fails msg = env_ok\<lparr>librosa_load := (\<lambda>_ _. Inl (Exception msg))\<rparr>"


text \<open>
  An environment whose two loaders return the given models, the configuration that
  names both classifiers, and the agent \<open>load_models\<close> makes of them.
\<close>

definition env_with_models :: "model \<Rightarrow> model \<Rightarrow> env" where
  "env_with_models cough breathing =
     env_ok\<lparr>load_cough_classifier := (\<lambda>_. Inr cough),
            load_breathing_analyzer := (\<lambda>_. Inr breathing)\<rparr>"

definition two_classifiers_config :: "pyval dict" where
  "two_classifiers_config =
     [(''models'', VDict [(''cough_classifier'', VDict []), (''breathing_analyzer'', VDict [])])]"

definition agent_with_models :: "model \<Rightarrow> model \<Rightarrow> agent" where
  "agent_with_models cough breathing =
     (agent_of two_classifiers_config)\<lparr>models :=
        [(''cough_classifier'', cough), (''breathing_analyzer'', breathing)]\<rparr>"

section \<open>The registry\<close>

subsection \<open>One configured name\<close>

lemma load_one_cough:
  "load_one E ms (''cough_classifier'', c) =
     (case load_cough_classifier E c of
        Inl e \<Rightarrow> Inl e
      | Inr m \<Rightarrow> Inr (AList.update ''cough_classifier'' m ms))"
  by (simp add: load_one_def Let_def)

lemma load_one_breathing:
  "load_one E ms (''breathing_analyzer'', c) =
     (case load_breathing_analyzer E c of
        Inl e \<Rightarrow> Inl e
      | Inr m \<Rightarrow> Inr (AList.update ''breathing_analyzer'' m ms))"
  by (simp add: load_one_def Let_def)

lemma load_one_voice:
  "load_one E ms (''voice_analyzer'', c) =
     (case map_of ms ''voice_analyzer'' of
        None \<Rightarrow> Inl (KeyError ''voice_analyzer'')
      | Some _ \<Rightarrow> Inl (AttributeError ''AudioAgent'' ''_load_voice_ananlyzer''))"
  by (simp add: load_one_def Let_def)

lemma load_one_emotion:
  "load_one E ms (''emotion_detector'', c) =
     (case map_of ms ''emotion_detector'' of
        None \<Rightarrow> Inl (KeyError ''emotion_detector'')
      | Some _ \<Rightarrow>
         (case pipeline E ''audio-classification''
                 ''ehcalabres/wav2vec2-lg-xlsr-en-speech-emotion-recognition'' of
            Inl e \<Rightarrow> Inl e
          | Inr _ \<Rightarrow> Inr ms))"
  by (simp add: load_one_def Let_def)

lemma load_one_other:
  assumes "n \<noteq> ''cough_classifier''" "n \<noteq> ''breathing_analyzer''"
    "n \<noteq> ''voice_analyzer''" "n \<noteq> ''emotion_detector''"
  shows "load_one E ms (n, c) = Inr ms"
  using assms by (simp add: load_one_def)


lemma load_one_shape:
  assumes "load_one E ms (n, c) = Inr ms'"
  shows "ms' = ms \<or>
    (\<exists>m. ms' = AList.update n m ms \<and> (n = ''cough_classifier'' \<or> n = ''breathing_analyzer''))"
proof (cases "n = ''cough_classifier''")
  case True
  with assms show ?thesis
    by (cases "load_cough_classifier E c") (auto simp: load_one_cough)
next
  case c: False
  show ?thesis
  proof (cases "n = ''breathing_analyzer''")
    case True
    with assms show ?thesis
      by (cases "load_breathing_analyzer E c") (auto simp: load_one_breathing)
  next
    case b: False
    show ?thesis
    proof (cases "n = ''voice_analyzer''")
      case True
      with assms show ?thesis
        by (cases "map_of ms ''voice_analyzer''") (simp_all add: load_one_voice)
    next
      case v: False
      show ?thesis
      proof (cases "n = ''emotion_detector''")
        case True
        with assms show ?thesis
          by (simp add: load_one_emotion split: option.splits sum.splits)
      next
        case False
        with assms c b v show ?thesis by (simp add: load_one_other)
      qed
    qed
  qed
qed

lemma load_one_Inl_cong:
  assumes "map_of ms n = map_of ms' n"
  shows "load_one E ms (n, c) = Inl e \<longleftrightarrow> load_one E ms' (n, c) = Inl e"
proof (cases "n = ''cough_classifier''")
  case True
  then show ?thesis
    by (cases "load_cough_classifier E c") (simp_all add: load_one_cough)
next
  case c: False
  show ?thesis
  proof (cases "n = ''breathing_analyzer''")
    case True
    then show ?thesis
      by (cases "load_breathing_analyzer E c") (simp_all add: load_one_breathing)
  next
    case b: False
    show ?thesis
    proof (cases "n = ''voice_analyzer''")
      case True
      with assms show ?thesis by (simp add: load_one_voice)
    next
      case v: False
      show ?thesis
      proof (cases "n = ''emotion_detector''")
        case True
        with assms show ?thesis
          by (simp add: load_one_emotion split: option.splits sum.splits)
      next
        case False
        with c b v show ?thesis by (simp add: load_one_other)
      qed
    qed
  qed
qed

lemma load_one_keys:
  assumes "load_one E ms (n, c) = Inr ms'"
  shows "fst ` set ms' \<subseteq> insert n (fst ` set ms)"
proof -
  from load_one_shape [OF assms] show ?thesis
  proof
    assume "ms' = ms"
    then show ?thesis by auto
  next
    assume "\<exists>m. ms' = AList.update n m ms \<and>
         (n = ''cough_classifier'' \<or> n = ''breathing_analyzer'')"
    then obtain m where "ms' = AList.update n m ms" by blast
    then show ?thesis by (simp add: AList.dom_update)
  qed
qed


lemma load_models_loop_append:
  "load_models_loop E ms (xs @ ys) = load_models_loop E (load_models_loop E ms xs) ys"
proof (induction xs arbitrary: ms)
  case Nil
  show ?case by simp
next
  case (Cons kv xs)
  show ?case
    by (cases "load_one E ms kv") (simp_all add: Cons.IH)
qed

lemma load_models_loop_keys:
  "fst ` set (load_models_loop E ms cfgs) \<subseteq> fst ` set ms \<union> fst ` set cfgs"
proof (induction cfgs arbitrary: ms)
  case Nil
  show ?case by simp
next
  case (Cons kv rest)
  obtain n c where kv: "kv = (n, c)" by (cases kv)
  show ?case
  proof (cases "load_one E ms (n, c)")
    case (Inl e)
    have "fst ` set (load_models_loop E ms rest) \<subseteq> fst ` set ms \<union> fst ` set rest"
      by (rule Cons.IH)
    also have "\<dots> \<subseteq> fst ` set ms \<union> fst ` set (kv # rest)"
      by auto
    finally show ?thesis
      using Inl kv by simp
  next
    case (Inr ms')
    have "fst ` set (load_models_loop E ms' rest) \<subseteq> fst ` set ms' \<union> fst ` set rest"
      by (rule Cons.IH)
    also have "\<dots> \<subseteq> insert n (fst ` set ms) \<union> fst ` set rest"
      using load_one_keys [OF Inr] by (rule Un_mono) simp
    also have "\<dots> = fst ` set ms \<union> fst ` set (kv # rest)"
      using kv by simp
    finally show ?thesis
      using Inr kv by simp
  qed
qed

lemma unloadable_name_stays_absent:
  assumes name: "n = ''voice_analyzer'' \<or> n = ''emotion_detector''"
  shows "n \<notin> fst ` set ms \<Longrightarrow> n \<notin> fst ` set (load_models_loop E ms cfgs)"
proof (induction cfgs arbitrary: ms)
  case Nil
  then show ?case by simp
next
  case (Cons kv rest)
  obtain k c where kv: "kv = (k, c)" by (cases kv)
  show ?case
  proof (cases "load_one E ms (k, c)")
    case (Inl e)
    with Cons kv show ?thesis by simp
  next
    case (Inr ms')
    have "n \<notin> fst ` set ms'"
    proof -
      from load_one_shape [OF Inr] show ?thesis
      proof
        assume "ms' = ms"
        with Cons.prems show ?thesis by simp
      next
        assume "\<exists>m. ms' = AList.update k m ms \<and>
           (k = ''cough_classifier'' \<or> k = ''breathing_analyzer'')"
        then obtain m where m: "ms' = AList.update k m ms"
          and k: "k = ''cough_classifier'' \<or> k = ''breathing_analyzer''" by blast
        from k name have "n \<noteq> k" by auto
        with m Cons.prems show ?thesis by (simp add: AList.dom_update)
      qed
    qed
    with Cons.IH [of ms'] Inr kv show ?thesis by simp
  qed
qed

subsection \<open>Failure isolation\<close>

text \<open>
  Claim C7. A construction failure for one configured name is caught inside the loop:
  \<open>load_models\<close> still returns, the failed name is not a key of the registry, and the
  registry is the one that the configuration without that name produces, so the other
  names load, or fail, exactly as they would on their own. The names of a configuration
  are unique, as the keys of a dictionary are.
\<close>

theorem load_failure_isolated:
  assumes cfg: "map_of (config self) ''models'' = Some (VDict (pre @ (n, c) # post))"
    and empty: "models self = []"
    and uniq: "n \<notin> fst ` set pre \<union> fst ` set post"
    and fails: "load_one E [] (n, c) = Inl e"
  shows "\<exists>self'. load_models E self = Inr self' \<and>
           n \<notin> set (keys (models self')) \<and>
           models self' = load_models_loop E [] (pre @ post)"
proof -
  let ?ms = "load_models_loop E [] pre"
  have "fst ` set ?ms \<subseteq> fst ` set pre"
    using load_models_loop_keys [of E "[]" pre] by simp
  with uniq have "map_of ?ms n = None"
    by (auto simp: map_of_eq_None_iff)
  then have "load_one E ?ms (n, c) = Inl e"
    using fails load_one_Inl_cong [of ?ms n "[]" E c e] by simp
  then have skip: "load_models_loop E [] (pre @ (n, c) # post) = load_models_loop E [] (pre @ post)"
    by (simp add: load_models_loop_append)
  have "fst ` set (load_models_loop E [] (pre @ post)) \<subseteq> fst ` set (pre @ post)"
    using load_models_loop_keys [of E "[]" "pre @ post"] by simp
  with uniq have absent: "n \<notin> fst ` set (load_models_loop E [] (pre @ post))"
    by auto
  show ?thesis
    using cfg empty skip absent by (simp add: load_models_def dict_get_def keys_def)
qed

theorem load_failure_isolated_witness:
  "\<exists>self'. load_models env_cough_fails
       (agent_of [(''models'',
          VDict [(''cough_classifier'', VDict []), (''breathing_analyzer'', VDict [])])]) = Inr self' \<and>
     ''cough_classifier'' \<notin> set (keys (models self')) \<and>
     models self' = [(''breathing_analyzer'', const_model [[0, 0, 0, 0, 0]])]"
proof -
  let ?self = "agent_of [(''models'',
          VDict [(''cough_classifier'', VDict []), (''breathing_analyzer'', VDict [])])]"
  have cfg: "map_of (config ?self) ''models'' =
      Some (VDict ([] @ (''cough_classifier'', VDict []) # [(''breathing_analyzer'', VDict [])]))"
    by (simp add: agent_of_def)
  have empty: "models ?self = []"
    by (simp add: agent_of_def)
  have uniq: "''cough_classifier'' \<notin> fst ` set [] \<union> fst ` set [(''breathing_analyzer'', VDict [])]"
    by simp
  have fails: "load_one env_cough_fails [] (''cough_classifier'', VDict []) = Inl (Exception ''cannot build'')"
    by (simp add: load_one_cough env_cough_fails_def)
  have rest: "load_models_loop env_cough_fails [] ([] @ [(''breathing_analyzer'', VDict [])]) =
      [(''breathing_analyzer'', const_model [[0, 0, 0, 0, 0]])]"
    by (simp add: load_one_breathing env_cough_fails_def env_ok_def)
  from load_failure_isolated [OF cfg empty uniq fails] show ?thesis
    by (simp only: rest)
qed

subsection \<open>The names written with a comparison\<close>

text \<open>
  Claim C1. A configured name whose construction completes should be a key of the
  registry. For \<^verbatim>\<open>voice_analyzer\<close> and \<^verbatim>\<open>emotion_detector\<close> the source compares instead
  of assigning, and the comparison raises before any constructor runs: with every
  constructor succeeding, a configuration of \<^verbatim>\<open>cough_classifier\<close>, \<^verbatim>\<open>voice_analyzer\<close>
  and \<^verbatim>\<open>emotion_detector\<close> leaves only \<^verbatim>\<open>cough_classifier\<close> in the registry.
\<close>

theorem voice_and_emotion_not_registered:
  "load_models env_ok
     (agent_of [(''models'',
        VDict [(''cough_classifier'', VDict []), (''voice_analyzer'', VDict []),
               (''emotion_detector'', VDict [])])]) =
   Inr ((agent_of [(''models'',
        VDict [(''cough_classifier'', VDict []), (''voice_analyzer'', VDict []),
               (''emotion_detector'', VDict [])])])
         \<lparr>models := [(''cough_classifier'', const_model [[0, 0, 0, 0]])]\<rparr>)"
  by (simp add: load_models_def agent_of_def dict_get_def load_one_cough load_one_voice
      load_one_emotion env_ok_def)

section \<open>The dispatch loop\<close>

subsection \<open>Argmax and the dict comprehension\<close>

lemma argmax_from_scan:
  assumes "best_idx < length seen" "seen ! best_idx = best" "i = length seen"
    and "\<forall>j < length seen. seen ! j \<le> best"
    and "\<forall>j < best_idx. seen ! j < best"
  shows "argmax_from best best_idx i xs < length (seen @ xs) \<and>
     (\<forall>j < length (seen @ xs). (seen @ xs) ! j \<le> (seen @ xs) ! argmax_from best best_idx i xs) \<and>
     (\<forall>j < argmax_from best best_idx i xs. (seen @ xs) ! j < (seen @ xs) ! argmax_from best best_idx i xs)"
  using assms
proof (induction xs arbitrary: seen best best_idx i)
  case Nil
  then show ?case by auto
next
  case (Cons x xs)
  let ?seen = "seen @ [x]"
  show ?case
  proof (cases "best < x")
    case True
    have "argmax_from x i (Suc i) xs < length (?seen @ xs) \<and>
      (\<forall>j < length (?seen @ xs). (?seen @ xs) ! j \<le> (?seen @ xs) ! argmax_from x i (Suc i) xs) \<and>
      (\<forall>j < argmax_from x i (Suc i) xs. (?seen @ xs) ! j < (?seen @ xs) ! argmax_from x i (Suc i) xs)"
    proof (rule Cons.IH)
      show "i < length ?seen" using Cons.prems(3) by simp
      show "?seen ! i = x" using Cons.prems(3) by simp
      show "Suc i = length ?seen" using Cons.prems(3) by simp
      show "\<forall>j < length ?seen. ?seen ! j \<le> x"
        using Cons.prems(4) True by (auto simp: nth_append less_Suc_eq intro: less_imp_le order_trans)
      show "\<forall>j < i. ?seen ! j < x"
        using Cons.prems(3,4) True by (auto simp: nth_append intro: le_less_trans)
    qed
    with True show ?thesis by simp
  next
    case False
    have "argmax_from best best_idx (Suc i) xs < length (?seen @ xs) \<and>
      (\<forall>j < length (?seen @ xs). (?seen @ xs) ! j \<le> (?seen @ xs) ! argmax_from best best_idx (Suc i) xs) \<and>
      (\<forall>j < argmax_from best best_idx (Suc i) xs. (?seen @ xs) ! j < (?seen @ xs) ! argmax_from best best_idx (Suc i) xs)"
    proof (rule Cons.IH)
      show "best_idx < length ?seen" using Cons.prems(1) by simp
      show "?seen ! best_idx = best" using Cons.prems(1,2) by (simp add: nth_append)
      show "Suc i = length ?seen" using Cons.prems(3) by simp
      show "\<forall>j < length ?seen. ?seen ! j \<le> best"
        using Cons.prems(4) False by (auto simp: nth_append less_Suc_eq)
      show "\<forall>j < best_idx. ?seen ! j < best"
        using Cons.prems(1,5) by (auto simp: nth_append)
    qed
    with False show ?thesis by simp
  qed
qed

lemma argmax_first_maximum:
  assumes "xs \<noteq> []"
  shows "\<exists>i. argmax xs = Inr i \<and> i < length xs \<and>
     (\<forall>j < length xs. xs ! j \<le> xs ! i) \<and> (\<forall>j < i. xs ! j < xs ! i)"
proof -
  from assms obtain x rest where xs: "xs = x # rest" by (cases xs) auto
  have "argmax_from x 0 1 rest < length ([x] @ rest) \<and>
     (\<forall>j < length ([x] @ rest). ([x] @ rest) ! j \<le> ([x] @ rest) ! argmax_from x 0 1 rest) \<and>
     (\<forall>j < argmax_from x 0 1 rest. ([x] @ rest) ! j < ([x] @ rest) ! argmax_from x 0 1 rest)"
    by (rule argmax_from_scan) simp_all
  then show ?thesis
    using xs by (simp add: argmax_def)
qed

lemma update_fresh: "k \<notin> fst ` set al \<Longrightarrow> AList.update k v al = al @ [(k, v)]"
  by (induction al) auto

lemma foldl_update_distinct:
  "distinct (map fst (acc @ ps)) \<Longrightarrow>
   foldl (\<lambda>d kv. AList.update (fst kv) (snd kv) d) acc ps = acc @ ps"
proof (induction ps arbitrary: acc)
  case Nil
  show ?case by simp
next
  case (Cons kv ps)
  from Cons.prems have fresh: "fst kv \<notin> fst ` set acc"
    by auto
  have "AList.update (fst kv) (snd kv) acc = acc @ [kv]"
    using update_fresh [OF fresh] by simp
  moreover have "distinct (map fst ((acc @ [kv]) @ ps))"
    using Cons.prems by simp
  ultimately show ?case
    using Cons.IH [of "acc @ [kv]"] by simp
qed

lemma argmax_is_first_max_index:
  assumes "xs \<noteq> []"
  shows "argmax xs = Inr (first_max_index xs) \<and> first_max_index xs < length xs \<and>
     xs ! first_max_index xs = Max (set xs)"
proof -
  from argmax_first_maximum [OF assms] obtain i where i: "argmax xs = Inr i"
    and bound: "i < length xs"
    and maxi: "\<forall>j < length xs. xs ! j \<le> xs ! i"
    and first: "\<forall>j < i. xs ! j < xs ! i"
    by blast
  have "Max (set xs) = xs ! i"
  proof (rule Max_eqI)
    show "finite (set xs)" by simp
    show "xs ! i \<in> set xs" using bound by simp
    fix y assume "y \<in> set xs"
    then obtain j where "j < length xs" "xs ! j = y"
      by (auto simp: in_set_conv_nth)
    with maxi show "y \<le> xs ! i" by auto
  qed
  then have top: "xs ! i = Max (set xs)" by simp
  have "takeWhile (\<lambda>x. x \<noteq> Max (set xs)) xs = take i xs"
  proof (rule takeWhile_eq_take_P_nth)
    fix j assume "j < i" "j < length xs"
    with first top show "xs ! j \<noteq> Max (set xs)" by auto
  next
    assume "i < length xs"
    show "\<not> xs ! i \<noteq> Max (set xs)" using top by simp
  qed
  then have "first_max_index xs = i"
    using bound by (simp add: first_max_index_def)
  with i bound top show ?thesis by simp
qed

lemma dict_comprehension_zip:
  assumes "distinct classes"
  shows "dict_comprehension (zip classes vs) = zip classes vs"
proof -
  have "map fst (zip classes vs) = take (min (length classes) (length vs)) classes"
    by (rule map_fst_zip_take)
  with assms have "distinct (map fst ([] @ zip classes vs))" by simp
  from foldl_update_distinct [OF this] show ?thesis
    by (simp add: dict_comprehension_def)
qed

lemma classifier_record_spec:
  assumes "classifier_record E classes output = Inr v" and "distinct classes"
  shows "\<exists>row rest. output = row # rest \<and>
     spec_classifier_record classes (torch_softmax E row) = Some v"
proof (cases "output")
  case Nil
  with assms(1) show ?thesis by (simp add: classifier_record_def)
next
  case (Cons row rest)
  let ?probs = "torch_softmax E row"
  show ?thesis
  proof (cases "?probs = []")
    case True
    with assms(1) Cons show ?thesis
      by (simp add: classifier_record_def argmax_def)
  next
    case False
    from argmax_is_first_max_index [OF False]
    have idx: "argmax ?probs = Inr (first_max_index ?probs)"
      and top: "?probs ! first_max_index ?probs = Max (set ?probs)"
      by simp_all
    have comp: "dict_comprehension (zip classes (map VFloat ?probs)) = zip classes (map VFloat ?probs)"
      using assms(2) by (rule dict_comprehension_zip)
    from assms(1) Cons idx have inside: "first_max_index ?probs < length classes"
      by (simp add: classifier_record_def split: if_splits)
    from assms(1) Cons idx inside top comp
    have "v = VDict
        [(''prediction'', VStr (classes ! first_max_index ?probs)),
         (''confidence'', VFloat (Max (set ?probs))),
         (''probabilities'', VDict (zip classes (map VFloat ?probs)))]"
      by (simp add: classifier_record_def)
    with False inside Cons show ?thesis
      by (simp add: spec_classifier_record_def)
  qed
qed

text \<open>
  The stored probabilities are the entries of the row \<open>torch_softmax\<close> returns, one
  for each label. That they sum to 1 within \<^verbatim>\<open>1e-5\<close> is a matter of the float32
  arithmetic of torch, on which this theory says nothing.
\<close>

subsection \<open>One model and the loop\<close>

lemma dispatch_one_emotion:
  "dispatch_one E audio p r (''emotion_detector'', m) =
     (case call_path m p of
        Inl e \<Rightarrow> Inl e
      | Inr v \<Rightarrow> Inr (AList.update ''emotion_detector'' v r))"
  by (simp add: dispatch_one_def Let_def split: sum.splits)

lemma dispatch_one_cough:
  "dispatch_one E audio p r (''cough_classifier'', m) =
     (case call_tensor m (model_input_of audio) of
        Inl e \<Rightarrow> Inl e
      | Inr output \<Rightarrow>
         (case classifier_record E [''normal'', ''covid'', ''pneumonia'', ''bronchitis''] output of
            Inl e \<Rightarrow> Inl e
          | Inr v \<Rightarrow> Inr (AList.update ''cough_classifier'' v r)))"
  by (simp add: dispatch_one_def Let_def split: sum.splits)

lemma dispatch_one_breathing:
  "dispatch_one E audio p r (''breathing_analyzer'', m) =
     (case call_tensor m (model_input_of audio) of
        Inl e \<Rightarrow> Inl e
      | Inr output \<Rightarrow>
         (case classifier_record E
                 [''normal'', ''wheezy'', ''crackle'', ''stridor'', ''rhonchi''] output of
            Inl e \<Rightarrow> Inl e
          | Inr v \<Rightarrow> Inr (AList.update ''breathing_analyzer'' v r)))"
  by (simp add: dispatch_one_def Let_def split: sum.splits)

lemma dispatch_one_voice:
  "dispatch_one E audio p r (''voice_analyzer'', m) =
     (case call_tensor m (model_input_of audio) of
        Inl e \<Rightarrow> Inl e
      | Inr output \<Rightarrow>
         (case voice_record output of
            Inl e \<Rightarrow> Inl e
          | Inr v \<Rightarrow> Inr (AList.update ''voice_analyzer'' v r)))"
  by (simp add: dispatch_one_def Let_def split: sum.splits)

lemma dispatch_one_other:
  assumes "n \<noteq> ''cough_classifier''" "n \<noteq> ''breathing_analyzer''"
    "n \<noteq> ''voice_analyzer''" "n \<noteq> ''emotion_detector''"
  shows "dispatch_one E audio p r (n, m) =
     (case call_tensor m (model_input_of audio) of Inl e \<Rightarrow> Inl e | Inr _ \<Rightarrow> Inr r)"
  using assms by (simp add: dispatch_one_def Let_def split: sum.splits)

lemma dispatch_one_shape:
  assumes "dispatch_one E audio p r (n, m) = Inr r'"
  shows "(\<exists>v. r' = AList.update n v r) \<and>
           n \<in> {''cough_classifier'', ''breathing_analyzer'', ''voice_analyzer'', ''emotion_detector''}
         \<or> r' = r \<and>
           n \<notin> {''cough_classifier'', ''breathing_analyzer'', ''voice_analyzer'', ''emotion_detector''}"
proof (cases "n = ''emotion_detector''")
  case True
  with assms show ?thesis
    by (auto simp: dispatch_one_emotion split: sum.splits)
next
  case e: False
  show ?thesis
  proof (cases "n = ''cough_classifier''")
    case True
    with assms show ?thesis
      by (auto simp: dispatch_one_cough split: sum.splits)
  next
    case c: False
    show ?thesis
    proof (cases "n = ''breathing_analyzer''")
      case True
      with assms show ?thesis
        by (auto simp: dispatch_one_breathing split: sum.splits)
    next
      case b: False
      show ?thesis
      proof (cases "n = ''voice_analyzer''")
        case True
        with assms show ?thesis
          by (auto simp: dispatch_one_voice split: sum.splits)
      next
        case False
        with assms e c b show ?thesis
          by (auto simp: dispatch_one_other split: sum.splits)
      qed
    qed
  qed
qed

lemma dispatch_append:
  "dispatch E audio p r (xs @ ys) =
     (case dispatch E audio p r xs of Inl x \<Rightarrow> Inl x | Inr r' \<Rightarrow> dispatch E audio p r' ys)"
proof (induction xs arbitrary: r)
  case Nil
  show ?case by simp
next
  case (Cons kv xs)
  show ?case
    by (cases "dispatch_one E audio p r kv") (simp_all add: Cons.IH)
qed

lemma dispatch_keys:
  assumes "dispatch E audio p r ms = Inr r'"
    and "fst ` set ms \<subseteq>
      {''cough_classifier'', ''breathing_analyzer'', ''voice_analyzer'', ''emotion_detector''}"
  shows "fst ` set r' = fst ` set r \<union> fst ` set ms"
  using assms
proof (induction ms arbitrary: r)
  case Nil
  then show ?case by simp
next
  case (Cons kv rest)
  obtain n m where kv: "kv = (n, m)" by (cases kv)
  from Cons.prems(1) kv obtain r1 where one: "dispatch_one E audio p r (n, m) = Inr r1"
    and rest: "dispatch E audio p r1 rest = Inr r'"
    by (cases "dispatch_one E audio p r (n, m)") simp_all
  from Cons.prems(2) kv have known:
    "n \<in> {''cough_classifier'', ''breathing_analyzer'', ''voice_analyzer'', ''emotion_detector''}"
    and sub: "fst ` set rest \<subseteq>
      {''cough_classifier'', ''breathing_analyzer'', ''voice_analyzer'', ''emotion_detector''}"
    by simp_all
  from dispatch_one_shape [OF one] known obtain v where "r1 = AList.update n v r"
    by blast
  then have "fst ` set r1 = insert n (fst ` set r)"
    by (simp add: AList.dom_update)
  moreover have "fst ` set r' = fst ` set r1 \<union> fst ` set rest"
    using Cons.IH [OF rest sub] .
  ultimately show ?case
    using kv by auto
qed

lemma dispatch_keeps_others:
  assumes "dispatch E audio p r ms = Inr r'" and "k \<notin> fst ` set ms"
  shows "map_of r' k = map_of r k"
  using assms
proof (induction ms arbitrary: r)
  case Nil
  then show ?case by simp
next
  case (Cons kv rest)
  obtain n m where kv: "kv = (n, m)" by (cases kv)
  from Cons.prems(1) kv obtain r1 where one: "dispatch_one E audio p r (n, m) = Inr r1"
    and rest: "dispatch E audio p r1 rest = Inr r'"
    by (cases "dispatch_one E audio p r (n, m)") simp_all
  from Cons.prems(2) kv have kn: "k \<noteq> n" and krest: "k \<notin> fst ` set rest"
    by auto
  from dispatch_one_shape [OF one] kn have "map_of r1 k = map_of r k"
    by (auto simp: AList.update_conv')
  with Cons.IH [OF rest krest] show ?case by simp
qed

lemma dispatch_one_spec:
  assumes one: "dispatch_one E audio p r (k, m) = Inr r'"
    and known: "k \<in> {''cough_classifier'', ''breathing_analyzer'', ''voice_analyzer'', ''emotion_detector''}"
  shows "\<exists>v. spec_record E audio p (k, m) = Some v \<and> r' = AList.update k v r"
proof -
  from known have "k = ''cough_classifier'' \<or> k = ''breathing_analyzer'' \<or>
      k = ''voice_analyzer'' \<or> k = ''emotion_detector''"
    by simp
  then consider (emotion) "k = ''emotion_detector''" | (cough) "k = ''cough_classifier''"
    | (breathing) "k = ''breathing_analyzer''" | (voice) "k = ''voice_analyzer''"
    by (elim disjE)
  then show ?thesis
  proof cases
    case emotion
    with one show ?thesis
      by (cases "call_path m p") (simp_all add: dispatch_one_emotion spec_record_def)
  next
    case cough
    from one cough obtain out v where out: "call_tensor m (model_input_of audio) = Inr out"
      and rec: "classifier_record E [''normal'', ''covid'', ''pneumonia'', ''bronchitis''] out = Inr v"
      and r': "r' = AList.update k v r"
      by (auto simp: dispatch_one_cough split: sum.splits)
    from classifier_record_spec [OF rec] obtain row rest where "out = row # rest"
      and "spec_classifier_record [''normal'', ''covid'', ''pneumonia'', ''bronchitis'']
             (torch_softmax E row) = Some v"
      by auto
    with out cough r' show ?thesis
      by (simp add: spec_record_def)
  next
    case breathing
    from one breathing obtain out v where out: "call_tensor m (model_input_of audio) = Inr out"
      and rec: "classifier_record E
          [''normal'', ''wheezy'', ''crackle'', ''stridor'', ''rhonchi''] out = Inr v"
      and r': "r' = AList.update k v r"
      by (auto simp: dispatch_one_breathing split: sum.splits)
    from classifier_record_spec [OF rec] obtain row rest where "out = row # rest"
      and "spec_classifier_record [''normal'', ''wheezy'', ''crackle'', ''stridor'', ''rhonchi'']
             (torch_softmax E row) = Some v"
      by auto
    with out breathing r' show ?thesis
      by (simp add: spec_record_def)
  next
    case voice
    from one voice obtain out v where out: "call_tensor m (model_input_of audio) = Inr out"
      and rec: "voice_record out = Inr v"
      and r': "r' = AList.update k v r"
      by (auto simp: dispatch_one_voice split: sum.splits)
    from rec obtain t h c more rest where "out = (t # h # c # more) # rest"
      and "v = VDict [(''tremor'', VFloat t), (''hoarseness'', VFloat h), (''clarity'', VFloat c)]"
      by (auto simp: voice_record_def split: list.splits)
    with out voice r' show ?thesis
      by (simp add: spec_record_def)
  qed
qed

lemma dispatch_stores_records:
  assumes "dispatch E audio p r ms = Inr r'"
    and "fst ` set ms \<subseteq>
      {''cough_classifier'', ''breathing_analyzer'', ''voice_analyzer'', ''emotion_detector''}"
    and "distinct (map fst ms)"
  shows "\<forall>km \<in> set ms. spec_record E audio p km \<noteq> None \<and>
           map_of r' (fst km) = spec_record E audio p km"
  using assms
proof (induction ms arbitrary: r)
  case Nil
  then show ?case by simp
next
  case (Cons kv rest)
  obtain k m where kv: "kv = (k, m)" by (cases kv)
  from Cons.prems(1) kv obtain r1 where one: "dispatch_one E audio p r (k, m) = Inr r1"
    and tail: "dispatch E audio p r1 rest = Inr r'"
    by (cases "dispatch_one E audio p r (k, m)") simp_all
  from Cons.prems(2) kv have known:
    "k \<in> {''cough_classifier'', ''breathing_analyzer'', ''voice_analyzer'', ''emotion_detector''}"
    and sub: "fst ` set rest \<subseteq>
      {''cough_classifier'', ''breathing_analyzer'', ''voice_analyzer'', ''emotion_detector''}"
    by simp_all
  from Cons.prems(3) kv have fresh: "k \<notin> fst ` set rest" and dist: "distinct (map fst rest)"
    by auto
  from dispatch_one_spec [OF one known] obtain v where v: "spec_record E audio p (k, m) = Some v"
    and r1: "r1 = AList.update k v r"
    by blast
  have "map_of r' k = map_of r1 k"
    using dispatch_keeps_others [OF tail fresh] .
  with r1 have "map_of r' k = Some v"
    by (simp add: AList.update_conv')
  with v kv have head: "spec_record E audio p kv \<noteq> None \<and>
      map_of r' (fst kv) = spec_record E audio p kv"
    by simp
  from Cons.IH [OF tail sub dist] head show ?case by simp
qed

section \<open>The analysis and its handler\<close>

lemma analyze_of_body:
  "analyze E self p =
     (case analyze_body E self p of
        Inr results \<Rightarrow> Inr results
      | Inl (e, results) \<Rightarrow> Inr (AList.update ''error'' (VStr (str e)) results))"
  by (simp add: analyze_def)

lemma analyze_body_decode_fails:
  "preprocess_audio E self p = Inl e \<Longrightarrow> analyze_body E self p = Inl (e, [])"
  by (simp add: analyze_body_def)

lemma analyze_body_features_fail:
  "preprocess_audio E self p = Inr audio \<Longrightarrow> extract_features E self audio = Inl e \<Longrightarrow>
   analyze_body E self p = Inl (e, [])"
  by (simp add: analyze_body_def)

lemma analyze_body_dispatch:
  "preprocess_audio E self p = Inr audio \<Longrightarrow> extract_features E self audio = Inr features \<Longrightarrow>
   analyze_body E self p =
     dispatch E audio p (report_before_dispatch E self audio features) (models self)"
  by (simp add: analyze_body_def)

lemma analyze_handler:
  "analyze_body E self p = Inl (e, r0) \<Longrightarrow>
   analyze E self p = Inr (AList.update ''error'' (VStr (str e)) r0)"
  by (simp add: analyze_def)

lemma map_of_update_same: "map_of (AList.update k v al) k = Some v"
  by (simp add: AList.update_conv')

lemma preprocess_decode_fails:
  "preprocess_audio (env_decode_fails msg) (agent_of cfg) ''clip.wav'' = Inl (Exception msg)"
  by (simp add: preprocess_audio_def env_decode_fails_def env_ok_def endswith_def)

text \<open>
  Claim C2. \<open>analyze\<close> returns a report on every path and every configuration and
  never raises to its caller. When preprocessing, feature extraction or a model of the
  dispatch loop raises \<open>e\<close>, the report has the key \<^verbatim>\<open>error\<close> with the value \<^verbatim>\<open>str(e)\<close>.
\<close>

theorem analyze_never_raises:
  "(\<exists>r. analyze E self p = Inr r) \<and>
   (\<forall>e. preprocess_audio E self p = Inl e \<longrightarrow>
      (\<exists>r. analyze E self p = Inr r \<and> map_of r ''error'' = Some (VStr (str e)))) \<and>
   (\<forall>audio e. preprocess_audio E self p = Inr audio \<longrightarrow>
      extract_features E self audio = Inl e \<longrightarrow>
      (\<exists>r. analyze E self p = Inr r \<and> map_of r ''error'' = Some (VStr (str e)))) \<and>
   (\<forall>audio features e r0. preprocess_audio E self p = Inr audio \<longrightarrow>
      extract_features E self audio = Inr features \<longrightarrow>
      dispatch E audio p (report_before_dispatch E self audio features) (models self) = Inl (e, r0) \<longrightarrow>
      (\<exists>r. analyze E self p = Inr r \<and> map_of r ''error'' = Some (VStr (str e))))"
proof (intro conjI allI impI)
  show "\<exists>r. analyze E self p = Inr r"
    by (cases "analyze_body E self p") (auto simp: analyze_def)
next
  fix e assume "preprocess_audio E self p = Inl e"
  then have "analyze E self p = Inr (AList.update ''error'' (VStr (str e)) [])"
    by (rule analyze_handler [OF analyze_body_decode_fails])
  then show "\<exists>r. analyze E self p = Inr r \<and> map_of r ''error'' = Some (VStr (str e))"
    by simp
next
  fix audio e
  assume "preprocess_audio E self p = Inr audio" "extract_features E self audio = Inl e"
  then have "analyze E self p = Inr (AList.update ''error'' (VStr (str e)) [])"
    by (rule analyze_handler [OF analyze_body_features_fail])
  then show "\<exists>r. analyze E self p = Inr r \<and> map_of r ''error'' = Some (VStr (str e))"
    by simp
next
  fix audio features e r0
  assume a: "preprocess_audio E self p = Inr audio"
    and f: "extract_features E self audio = Inr features"
    and d: "dispatch E audio p (report_before_dispatch E self audio features) (models self) = Inl (e, r0)"
  have "analyze_body E self p = Inl (e, r0)"
    using analyze_body_dispatch [OF a f] d by simp
  then have "analyze E self p = Inr (AList.update ''error'' (VStr (str e)) r0)"
    by (rule analyze_handler)
  then show "\<exists>r. analyze E self p = Inr r \<and> map_of r ''error'' = Some (VStr (str e))"
    by (simp add: map_of_update_same)
qed

theorem analyze_never_raises_witness:
  "\<exists>r. analyze (env_decode_fails ''file is corrupt'') (agent_of []) ''clip.wav'' = Inr r \<and>
       map_of r ''error'' = Some (VStr ''file is corrupt'')"
  using analyze_never_raises
    [of "env_decode_fails ''file is corrupt''" "agent_of []" "''clip.wav''"]
    preprocess_decode_fails [of "''file is corrupt''" "[]"]
  by auto

text \<open>
  Claim C6, as amended. When preprocessing fails with \<open>e\<close>, the report has the single
  key \<^verbatim>\<open>error\<close>, with the value \<^verbatim>\<open>str(e)\<close>: no features, no transcript, no model
  records. The value is the exception's message, whatever it is.
\<close>

theorem decode_failure_report:
  assumes "preprocess_audio E self p = Inl e"
  shows "analyze E self p = Inr [(''error'', VStr (str e))]"
  using analyze_handler [OF analyze_body_decode_fails [OF assms]] by simp

theorem decode_failure_report_witness:
  "analyze (env_decode_fails ''file is corrupt'') (agent_of []) ''clip.wav'' =
     Inr [(''error'', VStr ''file is corrupt'')]"
  using decode_failure_report [OF preprocess_decode_fails [of "''file is corrupt''" "[]"]]
  by simp

text \<open>
  Claim C6 as stated asks for a non-empty string. The handler stores \<^verbatim>\<open>str(e)\<close> as it
  is, and an exception raised without a message (audioread's \<^verbatim>\<open>NoBackendError()\<close>, which
  \<^verbatim>\<open>librosa.load\<close> lets through for a file no backend can decode) has the empty string.
\<close>

theorem decode_failure_empty_message:
  "preprocess_audio (env_decode_fails []) (agent_of []) ''clip.wav'' = Inl (Exception []) \<and>
   analyze (env_decode_fails []) (agent_of []) ''clip.wav'' = Inr [(''error'', VStr [])]"
  by (simp add: preprocess_decode_fails analyze_def analyze_body_def)

subsection \<open>A model that raises inside the loop\<close>

lemma report_before_dispatch_keys:
  "fst ` set (report_before_dispatch E self audio features) =
     (if truthy (dict_get (config self) ''transcribe'' (VBool True))
      then {''features'', ''transcript''} else {''features''})"
  by (auto simp: report_before_dispatch_def Let_def)

lemma report_before_dispatch_features:
  "map_of (report_before_dispatch E self audio features) ''features'' = Some (VDict features)"
  by (simp add: report_before_dispatch_def Let_def)

lemma report_before_dispatch_transcript:
  "truthy (dict_get (config self) ''transcribe'' (VBool True)) \<Longrightarrow>
   map_of (report_before_dispatch E self audio features) ''transcript'' =
     Some (transcribe_audio E self audio)"
  by (simp add: report_before_dispatch_def Let_def)

lemma agent_with_models_loaded:
  "load_models (env_with_models cough breathing) (agent_of two_classifiers_config) =
     Inr (agent_with_models cough breathing)"
  by (simp add: load_models_def agent_of_def two_classifiers_config_def dict_get_def
      load_one_cough load_one_breathing env_with_models_def agent_with_models_def)

lemma env_with_models_preprocess:
  "preprocess_audio (env_with_models cough breathing) (agent_with_models cough breathing)
     ''clip.wav'' = Inr [1 / 2, 0, 0, 1]"
  by (simp add: preprocess_audio_def agent_with_models_def agent_of_def
      two_classifiers_config_def dict_get_def env_with_models_def env_ok_def endswith_def)

lemma env_with_models_features:
  "extract_features (env_with_models cough breathing) (agent_with_models cough breathing)
     [1 / 2, 0, 0, 1] =
   Inr [(''mfcc'', VList [VFloat 2, VFloat 3]), (''spectral_centroid'', VFloat 3),
        (''bandwidth'', VFloat 1), (''tempo'', VFloat 120)]"
  by (simp add: extract_features_def agent_with_models_def agent_of_def
      two_classifiers_config_def dict_get_def env_with_models_def env_ok_def mean_all_def
      mean_axis1_def mean_def)

lemma env_with_models_softmax:
  "torch_softmax (env_with_models cough breathing) [0, 0, 0, 0] = [1 / 4, 1 / 4, 1 / 4, 1 / 4]"
  by (simp add: env_with_models_def env_ok_def numeral_eq_Suc)

lemma env_with_models_start:
  "report_before_dispatch (env_with_models cough breathing)
     (agent_with_models cough breathing) [1 / 2, 0, 0, 1] features =
   [(''features'', VDict features), (''transcript'', VStr ''hello'')]"
  by (simp add: report_before_dispatch_def transcribe_audio_def agent_with_models_def
      agent_of_def two_classifiers_config_def dict_get_def env_with_models_def env_ok_def)

text \<open>
  Claim C10. When the model \<open>n\<close> raises \<open>e\<close> in the dispatch loop, after the models
  before it in iteration order have been dispatched, the report returned holds the key
  \<^verbatim>\<open>error\<close> with \<^verbatim>\<open>str(e)\<close>, the features, the transcript when transcription is
  enabled, and for every earlier model its prediction record, as section 4.5 words it;
  the key of \<open>n\<close> and the keys of all later models are absent, and the report has no
  other key. The registry is a dictionary over the four known names.
\<close>

theorem inference_failure_keeps_earlier_results:
  assumes audio: "preprocess_audio E self p = Inr audio"
    and features: "extract_features E self audio = Inr features"
    and registry: "models self = earlier @ (n, m) # later"
    and names: "fst ` set (models self) \<subseteq>
      {''cough_classifier'', ''breathing_analyzer'', ''voice_analyzer'', ''emotion_detector''}"
    and uniq: "distinct (map fst (models self))"
    and before: "dispatch E audio p (report_before_dispatch E self audio features) earlier = Inr r1"
    and fails: "dispatch_one E audio p r1 (n, m) = Inl e"
  shows "\<exists>r. analyze E self p = Inr r \<and>
     map_of r ''error'' = Some (VStr (str e)) \<and>
     map_of r ''features'' = Some (VDict features) \<and>
     (truthy (dict_get (config self) ''transcribe'' (VBool True)) \<longrightarrow>
        map_of r ''transcript'' = Some (transcribe_audio E self audio)) \<and>
     (\<forall>km \<in> set earlier. spec_record E audio p km \<noteq> None \<and>
        map_of r (fst km) = spec_record E audio p km) \<and>
     n \<notin> set (keys r) \<and>
     (\<forall>k \<in> fst ` set later. k \<notin> set (keys r)) \<and>
     set (keys r) =
       {''error'', ''features''} \<union>
       (if truthy (dict_get (config self) ''transcribe'' (VBool True)) then {''transcript''} else {}) \<union>
       fst ` set earlier"
proof -
  define K where
    "K = {''cough_classifier'', ''breathing_analyzer'', ''voice_analyzer'', ''emotion_detector''}"
  let ?init = "report_before_dispatch E self audio features"
  let ?final = "AList.update ''error'' (VStr (str e)) r1"
  have not_known: "''features'' \<notin> K" "''transcript'' \<notin> K" "''error'' \<notin> K"
    by (simp_all add: K_def)
  have all_known: "fst ` set (earlier @ (n, m) # later) \<subseteq> K"
    using names registry by (simp only: K_def)
  have earlier_known: "fst ` set earlier \<subseteq> K" and n_known: "n \<in> K"
    and later_known: "fst ` set later \<subseteq> K"
    using all_known by auto
  have all_distinct: "distinct (map fst earlier @ n # map fst later)"
    using uniq registry by simp
  then have n_fresh: "n \<notin> fst ` set earlier"
    and later_fresh: "\<forall>k \<in> fst ` set later. k \<notin> fst ` set earlier"
    and earlier_distinct: "distinct (map fst earlier)"
    by auto
  have "dispatch E audio p ?init (models self) = Inl (e, r1)"
    using before fails registry by (simp add: dispatch_append)
  then have "analyze_body E self p = Inl (e, r1)"
    using analyze_body_dispatch [OF audio features] by simp
  then have result: "analyze E self p = Inr ?final"
    by (rule analyze_handler)
  have keys_r1: "fst ` set r1 = fst ` set ?init \<union> fst ` set earlier"
    using dispatch_keys [OF before] earlier_known by (simp only: K_def)
  have keys_init: "fst ` set ?init =
      {''features''} \<union>
      (if truthy (dict_get (config self) ''transcribe'' (VBool True)) then {''transcript''} else {})"
    by (simp add: report_before_dispatch_keys)
  have keys_final: "set (keys ?final) =
       {''error'', ''features''} \<union>
       (if truthy (dict_get (config self) ''transcribe'' (VBool True)) then {''transcript''} else {}) \<union>
       fst ` set earlier"
    using keys_r1 keys_init by (auto simp: keys_def AList.dom_update)
  have init_sub: "fst ` set ?init \<subseteq> {''features'', ''transcript''}"
    using keys_init by (simp split: if_splits)
  have keys_sub: "set (keys ?final) \<subseteq> {''error'', ''features'', ''transcript''} \<union> fst ` set earlier"
    using keys_r1 init_sub by (auto simp: keys_def AList.dom_update)
  have err: "map_of ?final ''error'' = Some (VStr (str e))"
    by (simp add: map_of_update_same)
  have "''features'' \<notin> fst ` set earlier"
    using earlier_known not_known(1) by blast
  then have "map_of r1 ''features'' = Some (VDict features)"
    using dispatch_keeps_others [OF before] by (simp add: report_before_dispatch_features)
  then have feat: "map_of ?final ''features'' = Some (VDict features)"
    by (simp add: AList.update_conv')
  have "''transcript'' \<notin> fst ` set earlier"
    using earlier_known not_known(2) by blast
  then have "map_of r1 ''transcript'' = map_of ?init ''transcript''"
    using dispatch_keeps_others [OF before] by simp
  then have trans: "truthy (dict_get (config self) ''transcribe'' (VBool True)) \<longrightarrow>
        map_of ?final ''transcript'' = Some (transcribe_audio E self audio)"
    by (simp add: AList.update_conv' report_before_dispatch_transcript)
  have earlier_names: "fst ` set earlier \<subseteq>
      {''cough_classifier'', ''breathing_analyzer'', ''voice_analyzer'', ''emotion_detector''}"
    using earlier_known by (simp only: K_def)
  have stored: "\<forall>km \<in> set earlier. spec_record E audio p km \<noteq> None \<and>
        map_of r1 (fst km) = spec_record E audio p km"
    using before earlier_names earlier_distinct by (rule dispatch_stores_records)
  have records: "\<forall>km \<in> set earlier. spec_record E audio p km \<noteq> None \<and>
        map_of ?final (fst km) = spec_record E audio p km"
  proof
    fix km assume km: "km \<in> set earlier"
    then have "fst km \<in> K" using earlier_known by auto
    with not_known(3) have "fst km \<noteq> ''error''" by auto
    then have "map_of ?final (fst km) = map_of r1 (fst km)"
      by (simp add: AList.update_conv')
    with stored km show "spec_record E audio p km \<noteq> None \<and>
        map_of ?final (fst km) = spec_record E audio p km"
      by simp
  qed
  have outside: "k \<notin> set (keys ?final)" if "k \<in> K" "k \<notin> fst ` set earlier" for k
  proof -
    from that(1) not_known have "k \<noteq> ''error''" "k \<noteq> ''features''" "k \<noteq> ''transcript''"
      by auto
    with that(2) keys_sub show ?thesis by blast
  qed
  have n_out: "n \<notin> set (keys ?final)"
    using outside [OF n_known n_fresh] .
  have later_out: "\<forall>k \<in> fst ` set later. k \<notin> set (keys ?final)"
  proof
    fix k assume k: "k \<in> fst ` set later"
    with later_known have "k \<in> K" by blast
    moreover from k later_fresh have "k \<notin> fst ` set earlier" by blast
    ultimately show "k \<notin> set (keys ?final)" by (rule outside)
  qed
  show ?thesis
    by (intro exI [of _ ?final] conjI; fact)
qed

theorem inference_failure_keeps_earlier_results_witness:
  "load_models (env_with_models (const_model [[0, 0, 0, 0]]) (failing_model ''inference failed''))
     (agent_of two_classifiers_config) =
     Inr (agent_with_models (const_model [[0, 0, 0, 0]]) (failing_model ''inference failed'')) \<and>
   (\<exists>r. analyze (env_with_models (const_model [[0, 0, 0, 0]]) (failing_model ''inference failed''))
          (agent_with_models (const_model [[0, 0, 0, 0]]) (failing_model ''inference failed''))
          ''clip.wav'' = Inr r \<and>
     map_of r ''error'' = Some (VStr ''inference failed'') \<and>
     map_of r ''features'' =
       Some (VDict [(''mfcc'', VList [VFloat 2, VFloat 3]), (''spectral_centroid'', VFloat 3),
          (''bandwidth'', VFloat 1), (''tempo'', VFloat 120)]) \<and>
     map_of r ''transcript'' = Some (VStr ''hello'') \<and>
     map_of r ''cough_classifier'' =
       Some (VDict
         [(''prediction'', VStr ''normal''),
          (''confidence'', VFloat (1 / 4)),
          (''probabilities'',
             VDict [(''normal'', VFloat (1 / 4)), (''covid'', VFloat (1 / 4)),
                    (''pneumonia'', VFloat (1 / 4)), (''bronchitis'', VFloat (1 / 4))])]) \<and>
     ''breathing_analyzer'' \<notin> set (keys r) \<and>
     set (keys r) = {''error'', ''features'', ''transcript'', ''cough_classifier''}) \<and>
   (\<exists>r. analyze (env_with_models (failing_model ''inference failed'') (const_model [[0, 0, 0, 0, 0]]))
          (agent_with_models (failing_model ''inference failed'') (const_model [[0, 0, 0, 0, 0]]))
          ''clip.wav'' = Inr r \<and>
     map_of r ''error'' = Some (VStr ''inference failed'') \<and>
     ''cough_classifier'' \<notin> set (keys r) \<and>
     ''breathing_analyzer'' \<notin> set (keys r) \<and>
     set (keys r) = {''error'', ''features'', ''transcript''})"
proof -
  let ?audio = "[1 / 2, 0, 0, 1] :: real list"
  let ?features = "[(''mfcc'', VList [VFloat 2, VFloat 3]), (''spectral_centroid'', VFloat 3),
          (''bandwidth'', VFloat 1), (''tempo'', VFloat 120)]"
  let ?cough_rec = "VDict
         [(''prediction'', VStr ''normal''),
          (''confidence'', VFloat (1 / 4)),
          (''probabilities'',
             VDict [(''normal'', VFloat (1 / 4)), (''covid'', VFloat (1 / 4)),
                    (''pneumonia'', VFloat (1 / 4)), (''bronchitis'', VFloat (1 / 4))])]"
  have toggle: "truthy (dict_get (config (agent_with_models c b)) ''transcribe'' (VBool True))"
    for c b
    by (simp add: agent_with_models_def agent_of_def two_classifiers_config_def dict_get_def)
  have transcript: "transcribe_audio (env_with_models c b) (agent_with_models c b) ?audio =
      VStr ''hello''" for c b
    by (simp add: transcribe_audio_def env_with_models_def env_ok_def)
  have names: "fst ` set (models (agent_with_models c b)) \<subseteq>
      {''cough_classifier'', ''breathing_analyzer'', ''voice_analyzer'', ''emotion_detector''}"
    for c b
    by (simp add: agent_with_models_def)
  have uniq: "distinct (map fst (models (agent_with_models c b)))" for c b
    by (simp add: agent_with_models_def)
  have second_fails: "\<exists>r. analyze (env_with_models (const_model [[0, 0, 0, 0]]) (failing_model ''inference failed''))
          (agent_with_models (const_model [[0, 0, 0, 0]]) (failing_model ''inference failed''))
          ''clip.wav'' = Inr r \<and>
     map_of r ''error'' = Some (VStr ''inference failed'') \<and>
     map_of r ''features'' = Some (VDict ?features) \<and>
     map_of r ''transcript'' = Some (VStr ''hello'') \<and>
     map_of r ''cough_classifier'' = Some ?cough_rec \<and>
     ''breathing_analyzer'' \<notin> set (keys r) \<and>
     set (keys r) = {''error'', ''features'', ''transcript'', ''cough_classifier''}"
  proof -
    let ?cough = "const_model [[0, 0, 0, 0]]"
    let ?breathing = "failing_model ''inference failed''"
    let ?E = "env_with_models ?cough ?breathing"
    let ?A = "agent_with_models ?cough ?breathing"
    let ?r1 = "[(''features'', VDict ?features), (''transcript'', VStr ''hello''),
          (''cough_classifier'', ?cough_rec)]"
    have registry: "models ?A = [(''cough_classifier'', ?cough)] @
        (''breathing_analyzer'', ?breathing) # []"
      by (simp add: agent_with_models_def)
    have before: "dispatch ?E ?audio ''clip.wav'' (report_before_dispatch ?E ?A ?audio ?features)
        [(''cough_classifier'', ?cough)] = Inr ?r1"
      by (simp add: env_with_models_start dispatch_one_cough const_model_def
          classifier_record_def env_with_models_softmax argmax_def dict_comprehension_def)
    have fails: "dispatch_one ?E ?audio ''clip.wav'' ?r1 (''breathing_analyzer'', ?breathing) =
        Inl (Exception ''inference failed'')"
      by (simp add: dispatch_one_breathing failing_model_def)
    have spec: "spec_record ?E ?audio ''clip.wav'' (''cough_classifier'', ?cough) = Some ?cough_rec"
      by (simp add: spec_record_def spec_classifier_record_def first_max_index_def
          env_with_models_softmax const_model_def)
    from inference_failure_keeps_earlier_results
      [OF env_with_models_preprocess env_with_models_features registry names uniq before fails]
    obtain r where result: "analyze ?E ?A ''clip.wav'' = Inr r"
      and err: "map_of r ''error'' = Some (VStr (str (Exception ''inference failed'')))"
      and feat: "map_of r ''features'' = Some (VDict ?features)"
      and trans: "truthy (dict_get (config ?A) ''transcribe'' (VBool True)) \<longrightarrow>
          map_of r ''transcript'' = Some (transcribe_audio ?E ?A ?audio)"
      and records: "\<forall>km \<in> set [(''cough_classifier'', ?cough)].
          spec_record ?E ?audio ''clip.wav'' km \<noteq> None \<and>
          map_of r (fst km) = spec_record ?E ?audio ''clip.wav'' km"
      and absent: "''breathing_analyzer'' \<notin> set (keys r)"
      and later: "\<forall>k \<in> fst ` set ([] :: model dict). k \<notin> set (keys r)"
      and all_keys: "set (keys r) =
         {''error'', ''features''} \<union>
         (if truthy (dict_get (config ?A) ''transcribe'' (VBool True)) then {''transcript''} else {}) \<union>
         fst ` set [(''cough_classifier'', ?cough)]"
      by (elim exE conjE) (rule that; assumption)
    have e1: "map_of r ''error'' = Some (VStr ''inference failed'')"
      using err by simp
    have e2: "map_of r ''transcript'' = Some (VStr ''hello'')"
      using trans toggle transcript by simp
    have e3: "map_of r ''cough_classifier'' = Some ?cough_rec"
      using records spec by simp
    have e4: "set (keys r) = {''error'', ''features'', ''transcript'', ''cough_classifier''}"
      using all_keys toggle by (simp add: insert_commute)
    show ?thesis
      by (intro exI [of _ r] conjI; fact)
  qed
  have first_fails: "\<exists>r. analyze (env_with_models (failing_model ''inference failed'') (const_model [[0, 0, 0, 0, 0]]))
          (agent_with_models (failing_model ''inference failed'') (const_model [[0, 0, 0, 0, 0]]))
          ''clip.wav'' = Inr r \<and>
     map_of r ''error'' = Some (VStr ''inference failed'') \<and>
     ''cough_classifier'' \<notin> set (keys r) \<and>
     ''breathing_analyzer'' \<notin> set (keys r) \<and>
     set (keys r) = {''error'', ''features'', ''transcript''}"
  proof -
    let ?cough = "failing_model ''inference failed''"
    let ?breathing = "const_model [[0, 0, 0, 0, 0]]"
    let ?E = "env_with_models ?cough ?breathing"
    let ?A = "agent_with_models ?cough ?breathing"
    let ?r1 = "[(''features'', VDict ?features), (''transcript'', VStr ''hello'')]"
    have registry: "models ?A = [] @ (''cough_classifier'', ?cough) #
        [(''breathing_analyzer'', ?breathing)]"
      by (simp add: agent_with_models_def)
    have before: "dispatch ?E ?audio ''clip.wav'' (report_before_dispatch ?E ?A ?audio ?features)
        [] = Inr ?r1"
      by (simp add: env_with_models_start)
    have fails: "dispatch_one ?E ?audio ''clip.wav'' ?r1 (''cough_classifier'', ?cough) =
        Inl (Exception ''inference failed'')"
      by (simp add: dispatch_one_cough failing_model_def)
    from inference_failure_keeps_earlier_results
      [OF env_with_models_preprocess env_with_models_features registry names uniq before fails]
    obtain r where result: "analyze ?E ?A ''clip.wav'' = Inr r"
      and err: "map_of r ''error'' = Some (VStr (str (Exception ''inference failed'')))"
      and feat: "map_of r ''features'' = Some (VDict ?features)"
      and trans: "truthy (dict_get (config ?A) ''transcribe'' (VBool True)) \<longrightarrow>
          map_of r ''transcript'' = Some (transcribe_audio ?E ?A ?audio)"
      and records: "\<forall>km \<in> set [].
          spec_record ?E ?audio ''clip.wav'' km \<noteq> None \<and>
          map_of r (fst km) = spec_record ?E ?audio ''clip.wav'' km"
      and absent: "''cough_classifier'' \<notin> set (keys r)"
      and later: "\<forall>k \<in> fst ` set [(''breathing_analyzer'', ?breathing)]. k \<notin> set (keys r)"
      and all_keys: "set (keys r) =
         {''error'', ''features''} \<union>
         (if truthy (dict_get (config ?A) ''transcribe'' (VBool True)) then {''transcript''} else {}) \<union>
         fst ` set ([] :: model dict)"
      by (elim exE conjE) (rule that; assumption)
    have e1: "map_of r ''error'' = Some (VStr ''inference failed'')"
      using err by simp
    have e2: "''breathing_analyzer'' \<notin> set (keys r)"
      using later by simp
    have e3: "set (keys r) = {''error'', ''features'', ''transcript''}"
      using all_keys toggle by (simp add: insert_commute)
    show ?thesis
      by (intro exI [of _ r] conjI; fact)
  qed
  show ?thesis
    by (intro conjI; (rule agent_with_models_loaded second_fails first_fails))
qed

section \<open>Preprocessing and features\<close>

text \<open>
  Claim C3. Audio longer than 10000 samples should reach the model cut to its first
  10000 samples. The guard of line 302 takes \<^verbatim>\<open>len\<close> of the (1, 1, N) tensor, which is
  1, so the slice of line 303 never runs: with 10001 samples of audio the model is called
  on all 10001. With 10055 samples a classifier with the layer sizes of the source is
  called on all 10055 and its first linear layer raises, while on the first 10000 of
  them it runs.
\<close>

theorem long_audio_not_truncated:
  "model_input_of (replicate 10001 0) = [[replicate 10001 0]] \<and>
   model_input_of (replicate 10055 0) = [[replicate 10055 0]] \<and>
   dispatch_one env_ok (replicate 10055 0) ''clip.wav'' []
       (''cough_classifier'', zero_weight_classifier 4) =
     Inl (RuntimeError ''mat1 and mat2 shapes cannot be multiplied (1x12800 and 12672x128)'') \<and>
   call_tensor (zero_weight_classifier 4) [[take 10000 (replicate 10055 0)]] = Inr [[0, 0, 0, 0]]"
proof -
  have too_long: "classifier_forward_len 4 10055 =
      Inl (RuntimeError ''mat1 and mat2 shapes cannot be multiplied (1x12800 and 12672x128)'')"
    by (simp add: classifier_forward_len_def conv1d_len_def maxpool1d_len_def linear_len_def)
  have fits: "classifier_forward_len 4 10000 = Inr 4"
    by (simp add: classifier_forward_len_def conv1d_len_def maxpool1d_len_def linear_len_def)
  have zeros: "replicate 4 (0::real) = [0, 0, 0, 0]"
    by (simp add: numeral_eq_Suc)
  show ?thesis
    by (simp add: model_input_of_def dispatch_one_cough zero_weight_classifier_def too_long fits
        zeros)
qed




text \<open>
  Claim C5. The keys should follow the toggles \<^verbatim>\<open>extract_mfcc\<close>,
  \<^verbatim>\<open>extract_spectral_centroid\<close>, \<^verbatim>\<open>extract_chroma\<close> and \<^verbatim>\<open>extract_tempo\<close>, with the
  chroma feature under \<^verbatim>\<open>chroma_energy\<close>. Line 227 reads \<^verbatim>\<open>external_spectral_centroid\<close>
  and line 236 stores the chroma mean under \<^verbatim>\<open>bandwidth\<close>: with
  \<^verbatim>\<open>extract_spectral_centroid\<close> switched off the centroid is still there, and no key
  \<^verbatim>\<open>chroma_energy\<close> exists.
\<close>

theorem spectral_centroid_toggle_ignored:
  "extract_features env_ok (agent_of [(''extract_spectral_centroid'', VBool False)])
     [1 / 2, 0, 0, 1] =
     Inr [(''mfcc'', VList [VFloat 2, VFloat 3]), (''spectral_centroid'', VFloat 3),
          (''bandwidth'', VFloat 1), (''tempo'', VFloat 120)]"
  by (simp add: extract_features_def agent_of_def dict_get_def env_ok_def mean_all_def
      mean_axis1_def mean_def)

text \<open>
  Claim C9. The silence threshold should come from \<^verbatim>\<open>silence_threshold_db\<close>. Line 196
  reads the key \<^verbatim>\<open>silence_thresold\<close>, so with \<^verbatim>\<open>silence_threshold_db\<close> set to 60 or to 10
  the detector is called with the default 30 and the output is the same, although the
  detector of this environment answers differently at 60.
\<close>

theorem silence_threshold_db_ignored:
  "preprocess_audio env_ok
     (agent_of [(''remove_silence'', VBool True), (''silence_threshold_db'', VInt 60)])
     ''clip.wav'' = Inr [1 / 2, 1] \<and>
   preprocess_audio env_ok
     (agent_of [(''remove_silence'', VBool True), (''silence_threshold_db'', VInt 10)])
     ''clip.wav'' = Inr [1 / 2, 1] \<and>
   effects_split env_ok [1 / 2, 0, 0, 1] (VInt 60) = Inr [(0, 4)]"
  by (simp add: preprocess_audio_def agent_of_def dict_get_def env_ok_def endswith_def
      np_concatenate_def slice_def)

section \<open>Further properties\<close>

subsection \<open>The registry after loading\<close>

lemma load_models_loop_wellformed:
  assumes "distinct (map fst ms)"
    and "fst ` set ms \<subseteq> {''cough_classifier'', ''breathing_analyzer''}"
  shows "distinct (map fst (load_models_loop E ms cfgs)) \<and>
     fst ` set (load_models_loop E ms cfgs) \<subseteq> {''cough_classifier'', ''breathing_analyzer''}"
  using assms
proof (induction cfgs arbitrary: ms)
  case Nil
  then show ?case by simp
next
  case (Cons kv rest)
  obtain n c where kv: "kv = (n, c)" by (cases kv)
  show ?case
  proof (cases "load_one E ms (n, c)")
    case (Inl e)
    with Cons kv show ?thesis by simp
  next
    case (Inr ms')
    from load_one_shape [OF Inr]
    have "distinct (map fst ms') \<and>
      fst ` set ms' \<subseteq> {''cough_classifier'', ''breathing_analyzer''}"
    proof
      assume "ms' = ms"
      with Cons.prems show ?thesis by simp
    next
      assume "\<exists>m. ms' = AList.update n m ms \<and>
        (n = ''cough_classifier'' \<or> n = ''breathing_analyzer'')"
      then obtain m where m: "ms' = AList.update n m ms"
        and n: "n = ''cough_classifier'' \<or> n = ''breathing_analyzer''" by blast
      have "distinct (map fst ms')"
        using m Cons.prems(1) by (simp add: AList.distinct_update)
      moreover have "fst ` set ms' = insert n (fst ` set ms)"
        using m by (simp add: AList.dom_update)
      ultimately show ?thesis
        using n Cons.prems(2) by auto
    qed
    then have "distinct (map fst (load_models_loop E ms' rest)) \<and>
      fst ` set (load_models_loop E ms' rest) \<subseteq> {''cough_classifier'', ''breathing_analyzer''}"
      using Cons.IH [of ms'] by blast
    with Inr kv show ?thesis by simp
  qed
qed

text \<open>
  After \<open>load_models\<close> on an empty registry the keys are unique and among
  \<^verbatim>\<open>cough_classifier\<close> and \<^verbatim>\<open>breathing_analyzer\<close>: no configuration and no environment
  brings \<^verbatim>\<open>voice_analyzer\<close> or \<^verbatim>\<open>emotion_detector\<close> into the registry.
\<close>

theorem loaded_registry_wellformed:
  assumes "models self = []" and "load_models E self = Inr self'"
  shows "distinct (map fst (models self')) \<and>
     set (keys (models self')) \<subseteq> {''cough_classifier'', ''breathing_analyzer''}"
proof -
  from assms(2) obtain cfgs where
    "self' = self\<lparr>models := load_models_loop E (models self) cfgs\<rparr>"
    by (auto simp: load_models_def split: pyval.splits)
  then have "models self' = load_models_loop E [] cfgs"
    using assms(1) by simp
  then show ?thesis
    using load_models_loop_wellformed [of "[]" E cfgs] by (simp add: keys_def)
qed

theorem loaded_registry_wellformed_witness:
  "distinct (map fst (models
      ((agent_of [(''models'',
        VDict [(''cough_classifier'', VDict []), (''voice_analyzer'', VDict []),
               (''emotion_detector'', VDict [])])])
         \<lparr>models := [(''cough_classifier'', const_model [[0, 0, 0, 0]])]\<rparr>))) \<and>
   set (keys (models
      ((agent_of [(''models'',
        VDict [(''cough_classifier'', VDict []), (''voice_analyzer'', VDict []),
               (''emotion_detector'', VDict [])])])
         \<lparr>models := [(''cough_classifier'', const_model [[0, 0, 0, 0]])]\<rparr>)))
     \<subseteq> {''cough_classifier'', ''breathing_analyzer''}"
proof -
  let ?A = "agent_of [(''models'',
        VDict [(''cough_classifier'', VDict []), (''voice_analyzer'', VDict []),
               (''emotion_detector'', VDict [])])]"
  have empty: "models ?A = []"
    by (simp add: agent_of_def)
  have loaded: "load_models env_ok ?A =
      Inr (?A\<lparr>models := [(''cough_classifier'', const_model [[0, 0, 0, 0]])]\<rparr>)"
    by (simp add: load_models_def agent_of_def dict_get_def load_one_cough load_one_voice
      load_one_emotion env_ok_def)
  show ?thesis
    by (rule loaded_registry_wellformed [OF empty loaded])
qed

subsection \<open>An analysis in which nothing raises\<close>

text \<open>
  When no stage raises, the report has the features, the transcript when transcription
  is enabled, and for every model of the registry its prediction record as section 4.5
  words it; it has no other key, and so no \<^verbatim>\<open>error\<close>.
\<close>

theorem complete_analysis_report:
  assumes audio: "preprocess_audio E self p = Inr audio"
    and features: "extract_features E self audio = Inr features"
    and names: "fst ` set (models self) \<subseteq>
      {''cough_classifier'', ''breathing_analyzer'', ''voice_analyzer'', ''emotion_detector''}"
    and uniq: "distinct (map fst (models self))"
    and finished: "dispatch E audio p (report_before_dispatch E self audio features) (models self) = Inr r"
  shows "analyze E self p = Inr r \<and>
     map_of r ''features'' = Some (VDict features) \<and>
     (truthy (dict_get (config self) ''transcribe'' (VBool True)) \<longrightarrow>
        map_of r ''transcript'' = Some (transcribe_audio E self audio)) \<and>
     (\<forall>km \<in> set (models self). spec_record E audio p km \<noteq> None \<and>
        map_of r (fst km) = spec_record E audio p km) \<and>
     set (keys r) =
       {''features''} \<union>
       (if truthy (dict_get (config self) ''transcribe'' (VBool True)) then {''transcript''} else {}) \<union>
       fst ` set (models self)"
proof -
  define K where
    "K = {''cough_classifier'', ''breathing_analyzer'', ''voice_analyzer'', ''emotion_detector''}"
  let ?init = "report_before_dispatch E self audio features"
  have not_known: "''features'' \<notin> K" "''transcript'' \<notin> K"
    by (simp_all add: K_def)
  have known: "fst ` set (models self) \<subseteq> K"
    using names by (simp only: K_def)
  have "analyze_body E self p = Inr r"
    using analyze_body_dispatch [OF audio features] finished by simp
  then have result: "analyze E self p = Inr r"
    by (simp add: analyze_def)
  have "''features'' \<notin> fst ` set (models self)"
    using known not_known(1) by blast
  then have feat: "map_of r ''features'' = Some (VDict features)"
    using dispatch_keeps_others [OF finished] by (simp add: report_before_dispatch_features)
  have "''transcript'' \<notin> fst ` set (models self)"
    using known not_known(2) by blast
  then have "map_of r ''transcript'' = map_of ?init ''transcript''"
    using dispatch_keeps_others [OF finished] by simp
  then have trans: "truthy (dict_get (config self) ''transcribe'' (VBool True)) \<longrightarrow>
        map_of r ''transcript'' = Some (transcribe_audio E self audio)"
    by (simp add: report_before_dispatch_transcript)
  have records: "\<forall>km \<in> set (models self). spec_record E audio p km \<noteq> None \<and>
        map_of r (fst km) = spec_record E audio p km"
    using finished names uniq by (rule dispatch_stores_records)
  have "fst ` set r = fst ` set ?init \<union> fst ` set (models self)"
    using finished names by (rule dispatch_keys)
  then have all_keys: "set (keys r) =
       {''features''} \<union>
       (if truthy (dict_get (config self) ''transcribe'' (VBool True)) then {''transcript''} else {}) \<union>
       fst ` set (models self)"
    by (simp add: keys_def report_before_dispatch_keys)
  show ?thesis
    by (intro conjI; fact)
qed

lemma call_tensor_const_model: "call_tensor (const_model out) t = Inr out"
  by (simp add: const_model_def)

lemma env_with_models_softmax5:
  "torch_softmax (env_with_models cough breathing) [0, 0, 0, 0, 0] =
     [1 / 5, 1 / 5, 1 / 5, 1 / 5, 1 / 5]"
  by (simp add: env_with_models_def env_ok_def numeral_eq_Suc)

theorem complete_analysis_report_witness:
  "analyze (env_with_models (const_model [[0, 0, 0, 0]]) (const_model [[0, 0, 0, 0, 0]]))
     (agent_with_models (const_model [[0, 0, 0, 0]]) (const_model [[0, 0, 0, 0, 0]])) ''clip.wav'' =
   Inr [(''features'',
           VDict [(''mfcc'', VList [VFloat 2, VFloat 3]), (''spectral_centroid'', VFloat 3),
                  (''bandwidth'', VFloat 1), (''tempo'', VFloat 120)]),
        (''transcript'', VStr ''hello''),
        (''cough_classifier'',
           VDict [(''prediction'', VStr ''normal''), (''confidence'', VFloat (1 / 4)),
                  (''probabilities'',
                     VDict [(''normal'', VFloat (1 / 4)), (''covid'', VFloat (1 / 4)),
                            (''pneumonia'', VFloat (1 / 4)), (''bronchitis'', VFloat (1 / 4))])]),
        (''breathing_analyzer'',
           VDict [(''prediction'', VStr ''normal''), (''confidence'', VFloat (1 / 5)),
                  (''probabilities'',
                     VDict [(''normal'', VFloat (1 / 5)), (''wheezy'', VFloat (1 / 5)),
                            (''crackle'', VFloat (1 / 5)), (''stridor'', VFloat (1 / 5)),
                            (''rhonchi'', VFloat (1 / 5))])])]"
proof -
  let ?c = "const_model [[0, 0, 0, 0]]"
  let ?b = "const_model [[0, 0, 0, 0, 0]]"
  let ?E = "env_with_models ?c ?b"
  let ?A = "agent_with_models ?c ?b"
  let ?audio = "[1 / 2, 0, 0, 1] :: real list"
  let ?features = "[(''mfcc'', VList [VFloat 2, VFloat 3]), (''spectral_centroid'', VFloat 3),
          (''bandwidth'', VFloat 1), (''tempo'', VFloat 120)]"
  have registry: "models ?A = [(''cough_classifier'', ?c), (''breathing_analyzer'', ?b)]"
    by (simp add: agent_with_models_def)
  have names: "fst ` set (models ?A) \<subseteq>
      {''cough_classifier'', ''breathing_analyzer'', ''voice_analyzer'', ''emotion_detector''}"
    by (simp add: registry)
  have uniq: "distinct (map fst (models ?A))"
    by (simp add: registry)
  have finished: "dispatch ?E ?audio ''clip.wav'' (report_before_dispatch ?E ?A ?audio ?features)
      (models ?A) =
    Inr [(''features'', VDict ?features),
        (''transcript'', VStr ''hello''),
        (''cough_classifier'',
           VDict [(''prediction'', VStr ''normal''), (''confidence'', VFloat (1 / 4)),
                  (''probabilities'',
                     VDict [(''normal'', VFloat (1 / 4)), (''covid'', VFloat (1 / 4)),
                            (''pneumonia'', VFloat (1 / 4)), (''bronchitis'', VFloat (1 / 4))])]),
        (''breathing_analyzer'',
           VDict [(''prediction'', VStr ''normal''), (''confidence'', VFloat (1 / 5)),
                  (''probabilities'',
                     VDict [(''normal'', VFloat (1 / 5)), (''wheezy'', VFloat (1 / 5)),
                            (''crackle'', VFloat (1 / 5)), (''stridor'', VFloat (1 / 5)),
                            (''rhonchi'', VFloat (1 / 5))])])]"
    by (simp add: env_with_models_start registry dispatch_one_cough dispatch_one_breathing
        call_tensor_const_model classifier_record_def env_with_models_softmax
        env_with_models_softmax5 argmax_def dict_comprehension_def)
  from complete_analysis_report
    [OF env_with_models_preprocess env_with_models_features names uniq finished]
  show ?thesis
    by (elim conjE)
qed

subsection \<open>The model input\<close>

text \<open>The tensor given to a model holds every sample of the audio, whatever its length.\<close>

theorem model_input_is_whole_audio: "model_input_of audio = [[audio]]"
  by (simp add: model_input_of_def)

subsection \<open>Configuration keys that are never read\<close>

lemma dict_get_update_other:
  "k \<noteq> k' \<Longrightarrow> dict_get (AList.update k' v d) k dflt = dict_get d k dflt"
  by (simp add: dict_get_def AList.update_conv')

text \<open>
  Setting \<^verbatim>\<open>silence_threshold_db\<close> to any value changes nothing in the result of
  preprocessing.
\<close>

theorem silence_threshold_db_never_read:
  "preprocess_audio E (self\<lparr>config := AList.update ''silence_threshold_db'' v (config self)\<rparr>) p =
   preprocess_audio E self p"
  by (simp add: preprocess_audio_def dict_get_update_other cong: sum.case_cong if_cong)

text \<open>
  Setting \<^verbatim>\<open>extract_spectral_centroid\<close> to any value changes nothing in the result of
  feature extraction.
\<close>

theorem extract_spectral_centroid_never_read:
  "extract_features E (self\<lparr>config := AList.update ''extract_spectral_centroid'' v (config self)\<rparr>) audio =
   extract_features E self audio"
  by (simp add: extract_features_def dict_get_update_other cong: sum.case_cong if_cong)

subsection \<open>The input window of the classifiers\<close>

lemma conv1d_len_Inr:
  "conv1d_len k s n = Inr l \<longleftrightarrow> k \<le> n \<and> l = (n - k) div s + 1"
  by (auto simp: conv1d_len_def)

lemma maxpool1d_len_Inr:
  "maxpool1d_len k n = Inr l \<longleftrightarrow> l \<noteq> 0 \<and> l = n div k"
  by (auto simp: maxpool1d_len_def)

lemma linear_len_Inr:
  "linear_len i out n = Inr l \<longleftrightarrow> n = i \<and> l = out"
  by (auto simp: linear_len_def)

lemma classifier_forward_len_Inr:
  "classifier_forward_len n_classes n = Inr k \<longleftrightarrow>
     (\<exists>l1 l2 l3 l4 h1 h2.
        conv1d_len 10 5 n = Inr l1 \<and> maxpool1d_len 2 l1 = Inr l2 \<and>
        conv1d_len 10 5 l2 = Inr l3 \<and> maxpool1d_len 2 l3 = Inr l4 \<and>
        linear_len (128 * 99) 128 (128 * l4) = Inr h1 \<and> linear_len 128 64 h1 = Inr h2 \<and>
        linear_len 64 n_classes h2 = Inr k)"
  unfolding classifier_forward_len_def
  by (cases "conv1d_len 10 5 n"; simp; cases "maxpool1d_len 2 (projr (conv1d_len 10 5 n))"; simp)
     (auto split: sum.splits)


lemma pool_window: "l3 div 2 = (99::nat) \<longleftrightarrow> 198 \<le> l3 \<and> l3 \<le> 199"
  by arith

lemma conv2_window:
  "10 \<le> l2 \<and> 198 \<le> (l2 - 10) div 5 + 1 \<and> (l2 - 10) div 5 + 1 \<le> (199::nat) \<longleftrightarrow>
   995 \<le> l2 \<and> l2 \<le> 1004"
  by arith

lemma pool1_window: "995 \<le> l1 div 2 \<and> l1 div 2 \<le> (1004::nat) \<longleftrightarrow> 1990 \<le> l1 \<and> l1 \<le> 2009"
  by arith

lemma conv1_window:
  "10 \<le> n \<and> 1990 \<le> (n - 10) div 5 + 1 \<and> (n - 10) div 5 + 1 \<le> (2009::nat) \<longleftrightarrow>
   9955 \<le> n \<and> n \<le> 10054"
  by arith

text \<open>
  A classifier module runs through on an input of \<open>n\<close> samples exactly when
  \<open>9955 \<le> n \<le> 10054\<close>: only then does the flattened output of the second pooling
  have the \<open>128 * 99\<close> entries the first linear layer takes.
\<close>

theorem classifier_window:
  "classifier_forward_len n_classes n = Inr n_classes \<longleftrightarrow> 9955 \<le> n \<and> n \<le> 10054"
proof -
  define l1 where "l1 = (n - 10) div 5 + 1"
  define l2 where "l2 = l1 div 2"
  define l3 where "l3 = (l2 - 10) div 5 + 1"
  define l4 where "l4 = l3 div 2"
  have "classifier_forward_len n_classes n = Inr n_classes \<longleftrightarrow>
      10 \<le> n \<and> l2 \<noteq> 0 \<and> 10 \<le> l2 \<and> l4 \<noteq> 0 \<and> 128 * l4 = 128 * 99"
    by (simp add: classifier_forward_len_Inr conv1d_len_Inr maxpool1d_len_Inr linear_len_Inr
        l1_def l2_def l3_def l4_def)
  also have "\<dots> \<longleftrightarrow> 10 \<le> n \<and> 10 \<le> l2 \<and> l4 = 99"
    by auto
  also have "\<dots> \<longleftrightarrow> 10 \<le> n \<and> 10 \<le> l2 \<and> 198 \<le> l3 \<and> l3 \<le> 199"
    unfolding l4_def using pool_window [of l3] by simp
  also have "\<dots> \<longleftrightarrow> 10 \<le> n \<and> 995 \<le> l2 \<and> l2 \<le> 1004"
    unfolding l3_def using conv2_window [of l2] by blast
  also have "\<dots> \<longleftrightarrow> 10 \<le> n \<and> 1990 \<le> l1 \<and> l1 \<le> 2009"
    unfolding l2_def using pool1_window [of l1] by simp
  also have "\<dots> \<longleftrightarrow> 9955 \<le> n \<and> n \<le> 10054"
    unfolding l1_def using conv1_window [of n] by blast
  finally show ?thesis .
qed

end
